theory Spec2Isabelle
  imports Main
begin

section \<open>Flattening a TOML dictionary into command-line arguments\<close>

text \<open>
  \<^verbatim>\<open>scripts/evaluate_navier_stokes.py\<close> is a linear script: it reads its
  command line, optionally rewrites \<^verbatim>\<open>sys.argv\<close> from a TOML file, builds a
  configuration, a data set, a model and a \<^verbatim>\<open>Trainer\<close>, restores a checkpoint,
  evaluates, prints, and tears the process group down.

  The only function with a recursion of its own is \<^verbatim>\<open>flatten_to_args\<close>
  (lines 42-52). A value read by \<^verbatim>\<open>tomllib\<close> is either a dictionary or something
  else. A dictionary keeps its insertion order and is an association list here; all
  other values are leaves, and the script only ever applies \<^verbatim>\<open>str\<close> to them.
\<close>

datatype tval =
    TStr string
  | TInt int
  | TBool bool
  | TOther string

datatype toml =
    Leaf tval
  | Table "(string \<times> toml) list"

text \<open>
  Python's \<^verbatim>\<open>str\<close> on a leaf. A string is itself, an integer is written in
  decimal with a leading minus sign when negative, a boolean is \<^verbatim>\<open>True\<close> or
  \<^verbatim>\<open>False\<close>. Floats, dates and arrays are carried as \<open>TOther\<close> with the text
  \<^verbatim>\<open>str\<close> gives for them.
\<close>

definition digit :: "nat \<Rightarrow> char" where
  "digit n = ''0123456789'' ! n"

fun str_nat :: "nat \<Rightarrow> string" where
  "str_nat n = (if n < 10 then [digit n] else str_nat (n div 10) @ [digit (n mod 10)])"

declare str_nat.simps [simp del]

definition str_int :: "int \<Rightarrow> string" where
  "str_int i = (if i < 0 then ''-'' @ str_nat (nat (- i)) else str_nat (nat i))"

fun str_py :: "tval \<Rightarrow> string" where
  "str_py (TStr s) = s"
| "str_py (TInt i) = str_int i"
| "str_py (TBool b) = (if b then ''True'' else ''False'')"
| "str_py (TOther s) = s"

text \<open>
  \<^verbatim>\<open>
  def flatten_to_args(d, prefix=""):
      args_list = []
      for k, v in d.items():
          key = f"{prefix}.{k}" if prefix else k
          if isinstance(v, dict):
              args_list.extend(flatten_to_args(v, key))
          else:
              val = str(v)
              args_list.append(f"--{key}")
              args_list.append(f"{val}")
      return args_list
  \<close>
  The test \<^verbatim>\<open>if prefix\<close> is Python's truth test on a string: the empty string
  is false.
\<close>

fun flatten_to_args :: "(string \<times> toml) list \<Rightarrow> string \<Rightarrow> string list" where
  "flatten_to_args [] prefix = []"
| "flatten_to_args ((k, v) # d) prefix =
     (let key = (if prefix \<noteq> [] then prefix @ ''.'' @ k else k) in
        (case v of
           Table t \<Rightarrow> flatten_to_args t key
         | Leaf x \<Rightarrow> [''--'' @ key, str_py x])
        @ flatten_to_args d prefix)"

text \<open>
  The reading of the specification: the leaves of a dictionary, each with the list of
  keys that leads to it, in iteration order; and the keys of a path joined by dots.
\<close>

fun spec_leaves :: "(string \<times> toml) list \<Rightarrow> (string list \<times> tval) list" where
  "spec_leaves [] = []"
| "spec_leaves ((k, v) # d) =
     (case v of
        Table t \<Rightarrow> map (\<lambda>(ks, x). (k # ks, x)) (spec_leaves t)
      | Leaf x \<Rightarrow> [([k], x)])
     @ spec_leaves d"

fun spec_dotted :: "string list \<Rightarrow> string" where
  "spec_dotted [] = []"
| "spec_dotted [k] = k"
| "spec_dotted (k # ks) = k @ ''.'' @ spec_dotted ks"

definition spec_flat_args :: "(string \<times> toml) list \<Rightarrow> string list" where
  "spec_flat_args d = concat (map (\<lambda>(ks, x). [''--'' @ spec_dotted ks, str_py x]) (spec_leaves d))"


section \<open>The objects the script passes around\<close>

text \<open>
  Exceptions. \<^verbatim>\<open>except Exception\<close> catches the instances of \<^verbatim>\<open>Exception\<close>
  only; \<^verbatim>\<open>SystemExit\<close> (what \<^verbatim>\<open>sys.exit\<close> raises), \<^verbatim>\<open>KeyboardInterrupt\<close>
  and \<^verbatim>\<open>GeneratorExit\<close> derive from \<^verbatim>\<open>BaseException\<close> directly. An exception
  carries the text \<^verbatim>\<open>str\<close> gives for it.
\<close>

datatype pyexc =
    ExceptionInst string
  | SystemExit int
  | BaseExceptionInst string

fun is_Exception :: "pyexc \<Rightarrow> bool" where
  "is_Exception (ExceptionInst m) = True"
| "is_Exception (SystemExit c) = False"
| "is_Exception (BaseExceptionInst m) = False"

fun exc_str :: "pyexc \<Rightarrow> string" where
  "exc_str (ExceptionInst m) = m"
| "exc_str (SystemExit c) = str_int c"
| "exc_str (BaseExceptionInst m) = m"

text \<open>
  Objects of the libraries are opaque handles. A float is never computed with, only
  passed on.
\<close>

datatype pyfloat = PyFloat int int
datatype device = Device string
datatype model = Model nat
datatype dataset = Dataset nat
datatype normalizer = Normalizer nat
datatype path = Path string

datatype sampler =
    DistributedSampler dataset int
  | LibrarySampler nat

text \<open>
  A \<^verbatim>\<open>DataLoader\<close>: its data set, its batch size, the \<^verbatim>\<open>shuffle\<close> argument
  (\<open>None\<close> when the caller does not pass it) and the sampler.
\<close>

datatype loader =
  DataLoader (ld_dataset: dataset) (ld_batch_size: int) (ld_shuffle: "bool option")
    (ld_sampler: "sampler option")

datatype data_processor =
    DefaultDataProcessor (in_normalizer: normalizer) (out_normalizer: normalizer)
  | MGPatchingDataProcessor (mg_model: model) (in_normalizer: normalizer)
      (out_normalizer: normalizer) (mg_padding_fraction: pyfloat) (mg_stitching: bool)
      (mg_levels: int) (mg_use_distributed: bool)

datatype loss =
    LpLoss int int
  | H1Loss int

datatype optimizer = AdamW model pyfloat
datatype scheduler = StepLR optimizer int pyfloat

text \<open>
  The configuration, with the fields the script reads, and \<open>wandb_log\<close>, which it
  never reads.
\<close>

record config =
  verbose :: bool
  data_folder :: string
  data_train_resolution :: int
  data_n_train :: int
  data_batch_size :: int
  data_test_resolutions :: "int list"
  data_n_tests :: "int list"
  data_test_batch_sizes :: "int list"
  data_encode_input :: bool
  data_encode_output :: bool
  patching_levels :: int
  patching_padding :: pyfloat
  patching_stitching :: bool
  distributed_use_distributed :: bool
  opt_learning_rate :: pyfloat
  opt_n_epochs :: int
  opt_mixed_precision :: bool
  opt_eval_interval :: int
  wandb_log_output :: bool
  wandb_log :: bool

text \<open>The keyword arguments of \<^verbatim>\<open>load_navier_stokes_pt\<close> (lines 80-90).\<close>

record load_args =
  la_data_root :: path
  la_train_resolution :: int
  la_n_train :: int
  la_batch_size :: int
  la_test_resolutions :: "int list"
  la_n_tests :: "int list"
  la_test_batch_sizes :: "int list"
  la_encode_input :: bool
  la_encode_output :: bool

text \<open>The keyword arguments of \<^verbatim>\<open>Trainer\<close> (lines 134-145).\<close>

record trainer =
  tr_model :: model
  tr_n_epochs :: int
  tr_data_processor :: data_processor
  tr_device :: device
  tr_mixed_precision :: bool
  tr_eval_interval :: int
  tr_log_output :: bool
  tr_use_distributed :: bool
  tr_verbose :: bool
  tr_wandb_log :: bool

text \<open>
  The places where the script builds a library object or calls a library function
  whose result it does not inspect, each with its arguments. Any of them may raise.
\<close>

datatype site =
    S_project_root
  | S_import string
  | S_ArgumentParser
  | S_add_argument string
  | S_expanduser string
  | S_MGPatchingDataProcessor data_processor
  | S_get_local_rank
  | S_DistributedSampler dataset int
  | S_DataLoader dataset int "bool option" sampler
  | S_AdamW model pyfloat
  | S_StepLR optimizer int pyfloat
  | S_LpLoss int int
  | S_H1Loss int
  | S_Trainer trainer

type_synonym loaders = "(int \<times> loader) list"
type_synonym losses = "(string \<times> loss) list"
type_synonym metrics = "(string \<times> string) list"

text \<open>
  The world outside the script: what each library call returns or raises.
  \<open>parse_known_args\<close> is the scan of \<^verbatim>\<open>sys.argv[1:]\<close> by \<^verbatim>\<open>argparse\<close>: the
  value supplied for \<^verbatim>\<open>--config\<close> and for \<^verbatim>\<open>--checkpoint\<close> (\<open>None\<close> when the
  flag is not supplied) and the arguments it does not know. The defaults are the
  script's and are applied in \<open>main_configure\<close>. A metric value is carried as the text
  \<^verbatim>\<open>str\<close> gives for it. \<open>make_config_from_cli\<close> stands for
  \<^verbatim>\<open>make_config_from_cli(Default).to_dict()\<close>. \<open>raises\<close> says which exception, if
  any, a construction raises; \<open>expanduser\<close> and \<open>get_local_rank\<close> are what
  these two return when they do not raise.
\<close>

record env =
  parse_known_args :: "string list \<Rightarrow> pyexc + (string option \<times> string option \<times> string list)"
  read_toml :: "string \<Rightarrow> pyexc + (string \<times> toml) list"
  make_config_from_cli :: "string list \<Rightarrow> pyexc + config"
  setup_py :: "config \<Rightarrow> pyexc + (device \<times> bool)"
  expanduser :: "string \<Rightarrow> path"
  load_navier_stokes_pt :: "load_args \<Rightarrow> pyexc + (loader \<times> loaders \<times> data_processor)"
  get_model :: "config \<Rightarrow> pyexc + model"
  model_to :: "model \<Rightarrow> device \<Rightarrow> pyexc + model"
  processor_to :: "data_processor \<Rightarrow> device \<Rightarrow> pyexc + data_processor"
  get_local_rank :: int
  path_str :: "path \<Rightarrow> string"
  resume_state_from_dir :: "trainer \<Rightarrow> path \<Rightarrow> pyexc + unit"
  evaluate_all :: "trainer \<Rightarrow> int \<Rightarrow> losses \<Rightarrow> loaders \<Rightarrow> (string \<times> string) list \<Rightarrow> pyexc + metrics"
  is_initialized :: bool
  destroy_process_group :: "pyexc + unit"
  raises :: "site \<Rightarrow> pyexc option"

text \<open>
  What a run does, in order: each line printed, each library call with what it
  returned or raised, the assignment to \<^verbatim>\<open>sys.argv\<close>, and each construction
  that raised. A construction that succeeds leaves no event of its own: the object
  shows in the calls it is passed to (\<open>E_Trainer\<close> marks the trainer once built).
  Printing and \<^verbatim>\<open>dist.is_initialized()\<close> are taken to return.
\<close>

datatype event =
    Print string
  | PrintConfig config
  | E_sys_path_insert
  | E_parse_known_args "string list" "pyexc + (string option \<times> string option \<times> string list)"
  | E_read_toml string "pyexc + (string \<times> toml) list"
  | E_set_argv "string list"
  | E_make_config_from_cli "string list" "pyexc + config"
  | E_setup config "pyexc + (device \<times> bool)"
  | E_load_navier_stokes_pt load_args "pyexc + (loader \<times> loaders \<times> data_processor)"
  | E_get_model config "pyexc + model"
  | E_model_to model device "pyexc + model"
  | E_processor_to data_processor device "pyexc + data_processor"
  | E_Trainer trainer
  | E_resume_state_from_dir trainer path "pyexc + unit"
  | E_evaluate_all trainer int losses loaders "(string \<times> string) list" "pyexc + metrics"
  | E_is_initialized bool
  | E_destroy_process_group "pyexc + unit"
  | E_raised site pyexc

text \<open>
  A piece of the script is its trace and its outcome: \<open>Inl\<close> the exception that
  leaves it, \<open>Inr\<close> the value it produces.
\<close>

type_synonym 'a prog = "event list \<times> (pyexc + 'a)"

definition ret :: "'a \<Rightarrow> 'a prog" where
  "ret x = ([], Inr x)"

definition raise :: "pyexc \<Rightarrow> 'a prog" where
  "raise e = ([], Inl e)"

definition emit :: "event \<Rightarrow> unit prog" where
  "emit ev = ([ev], Inr ())"

definition call :: "((pyexc + 'a) \<Rightarrow> event) \<Rightarrow> (pyexc + 'a) \<Rightarrow> 'a prog" where
  "call ev r = ([ev r], r)"

definition bind :: "'a prog \<Rightarrow> ('a \<Rightarrow> 'b prog) \<Rightarrow> 'b prog" where
  "bind m f =
     (case snd m of
        Inl e \<Rightarrow> (fst m, Inl e)
      | Inr x \<Rightarrow> (fst m @ fst (f x), snd (f x)))"

text \<open>A construction at a site: it raises what the world says, or yields the object.\<close>

definition fail :: "site \<Rightarrow> pyexc \<Rightarrow> 'a prog" where
  "fail s e = ([E_raised s e], Inl e)"

definition attempt :: "env \<Rightarrow> site \<Rightarrow> 'a \<Rightarrow> 'a prog" where
  "attempt ev s v = (case raises ev s of Some e \<Rightarrow> fail s e | None \<Rightarrow> ret v)"

text \<open>\<^verbatim>\<open>try: m  except Exception as e: h e\<close>\<close>

definition try_except :: "'a prog \<Rightarrow> (pyexc \<Rightarrow> 'a prog) \<Rightarrow> 'a prog" where
  "try_except m h =
     (case snd m of
        Inl e \<Rightarrow> (if is_Exception e then (fst m @ fst (h e), snd (h e)) else m)
      | Inr x \<Rightarrow> m)"


section \<open>The script\<close>

text \<open>
  Lines 110-123. \<^verbatim>\<open>test_loaders[res] = ...\<close> assigns to a key of the dictionary:
  the entry keeps its place when the key is there, and is added at the end otherwise.
  \<^verbatim>\<open>zip\<close> stops at the shorter of its two arguments. The loop assigns only to the
  key it is visiting, so iterating over the items seen at the start is what Python
  does.
  \<^verbatim>\<open>
  if config.distributed.use_distributed:
      train_db = train_loader.dataset
      train_sampler = DistributedSampler(train_db, rank=get_local_rank())
      train_loader = DataLoader(
          dataset=train_db, batch_size=config.data.batch_size, sampler=train_sampler)
      for (res, loader), batch_size in zip(
          test_loaders.items(), config.data.test_batch_sizes):
          test_db = loader.dataset
          test_sampler = DistributedSampler(test_db, rank=get_local_rank())
          test_loaders[res] = DataLoader(
              dataset=test_db, batch_size=batch_size, shuffle=False, sampler=test_sampler)
  \<close>
\<close>

fun dict_set :: "'k \<Rightarrow> 'v \<Rightarrow> ('k \<times> 'v) list \<Rightarrow> ('k \<times> 'v) list" where
  "dict_set k v [] = [(k, v)]"
| "dict_set k v ((k', v') # d) = (if k = k' then (k, v) # d else (k', v') # dict_set k v d)"

definition distributed_loader :: "env \<Rightarrow> loader \<Rightarrow> int \<Rightarrow> bool option \<Rightarrow> loader prog" where
  "distributed_loader ev ld batch_size shuffle =
     (let db = ld_dataset ld in
      bind (attempt ev S_get_local_rank (get_local_rank ev)) (\<lambda>rank.
      bind (attempt ev (S_DistributedSampler db rank) (DistributedSampler db rank)) (\<lambda>smp.
      attempt ev (S_DataLoader db batch_size shuffle smp)
        (DataLoader db batch_size shuffle (Some smp)))))"

fun wrap_test_loaders :: "env \<Rightarrow> ((int \<times> loader) \<times> int) list \<Rightarrow> loaders \<Rightarrow> loaders prog" where
  "wrap_test_loaders ev [] test_loaders = ret test_loaders"
| "wrap_test_loaders ev (((res, ld), batch_size) # rest) test_loaders =
     bind (distributed_loader ev ld batch_size (Some False)) (\<lambda>new_loader.
     wrap_test_loaders ev rest (dict_set res new_loader test_loaders))"

definition distributed_setup :: "env \<Rightarrow> config \<Rightarrow> loader \<Rightarrow> loaders \<Rightarrow> (loader \<times> loaders) prog" where
  "distributed_setup ev config train_loader test_loaders =
     (if distributed_use_distributed config then
        bind (distributed_loader ev train_loader (data_batch_size config) None)
          (\<lambda>train_loader'.
        bind (wrap_test_loaders ev (zip test_loaders (data_test_batch_sizes config))
                test_loaders) (\<lambda>test_loaders'.
        ret (train_loader', test_loaders')))
      else ret (train_loader, test_loaders))"

text \<open>Lines 97-106: the data processor before it is moved to the device.\<close>

definition patching_setup :: "env \<Rightarrow> config \<Rightarrow> model \<Rightarrow> data_processor \<Rightarrow> data_processor prog" where
  "patching_setup ev config mdl data_processor =
     (if patching_levels config > 0 then
        (let mg = MGPatchingDataProcessor mdl (in_normalizer data_processor)
                    (out_normalizer data_processor) (patching_padding config)
                    (patching_stitching config) (patching_levels config)
                    (distributed_use_distributed config)
         in attempt ev (S_MGPatchingDataProcessor mg) mg)
      else ret data_processor)"

text \<open>
  Lines 23-63: the command line and the configuration. \<^verbatim>\<open>ArgumentParser()\<close>
  takes the program name from \<^verbatim>\<open>sys.argv[0]\<close> and raises \<^verbatim>\<open>IndexError\<close> on an
  empty \<^verbatim>\<open>sys.argv\<close>. \<^verbatim>\<open>if args.config\<close> is the truth test on \<^verbatim>\<open>None\<close> or a
  string. The result is \<^verbatim>\<open>args.checkpoint\<close> and the configuration.
\<close>

definition argument_parser :: "env \<Rightarrow> string list \<Rightarrow> unit prog" where
  "argument_parser ev argv =
     (case argv of
        [] \<Rightarrow> fail S_ArgumentParser (ExceptionInst ''list index out of range'')
      | a0 # rest \<Rightarrow> attempt ev S_ArgumentParser ())"

definition main_configure :: "env \<Rightarrow> string list \<Rightarrow> (string \<times> config) prog" where
  "main_configure ev argv =
     bind (attempt ev S_project_root ()) (\<lambda>_.
     bind (emit E_sys_path_insert) (\<lambda>_.
     bind (attempt ev (S_import ''argparse'') ()) (\<lambda>_.
     bind (attempt ev (S_import ''tomllib'') ()) (\<lambda>_.
     bind (argument_parser ev argv) (\<lambda>_.
     bind (attempt ev (S_add_argument ''--config'') ()) (\<lambda>_.
     bind (attempt ev (S_add_argument ''--checkpoint'') ()) (\<lambda>_.
     bind (call (E_parse_known_args (tl argv)) (parse_known_args ev (tl argv)))
       (\<lambda>(supplied_config, supplied_checkpoint, unknown).
     let args_config = supplied_config;
         args_checkpoint = (case supplied_checkpoint of None \<Rightarrow> ''./ckpt'' | Some c \<Rightarrow> c)
     in
     bind (case args_config of
             None \<Rightarrow> ret argv
           | Some p \<Rightarrow>
               if p \<noteq> [] then
                 bind (call (E_read_toml p) (read_toml ev p)) (\<lambda>config_dict.
                 let file_args = flatten_to_args config_dict [] in
                 (case argv of
                    [] \<Rightarrow> raise (ExceptionInst ''list index out of range'')
                  | a0 # rest \<Rightarrow>
                      bind (emit (E_set_argv ([a0] @ file_args @ unknown))) (\<lambda>_.
                      ret ([a0] @ file_args @ unknown))))
               else ret argv) (\<lambda>argv'.
     bind (attempt ev (S_import ''zencfg'') ()) (\<lambda>_.
     bind (attempt ev (S_import ''config.navier_stokes_config'') ()) (\<lambda>_.
     bind (call (E_make_config_from_cli argv') (make_config_from_cli ev argv')) (\<lambda>config.
     ret (args_checkpoint, config)))))))))))))"

text \<open>
  Lines 65-145: from \<^verbatim>\<open>setup\<close> to the \<^verbatim>\<open>Trainer\<close>. The keyword arguments
  of \<^verbatim>\<open>load_navier_stokes_pt\<close> (lines 80-90) and of \<^verbatim>\<open>Trainer\<close> (lines 134-145),
  the losses (lines 130-132), the printing of the configuration (lines 71-73) and
  lines 109-145 (\<open>build_trainer\<close>) are named. The optimizer and the scheduler are built
  and never used.
\<close>

definition make_load_args :: "path \<Rightarrow> config \<Rightarrow> load_args" where
  "make_load_args data_dir config =
     \<lparr>la_data_root = data_dir,
      la_train_resolution = data_train_resolution config,
      la_n_train = data_n_train config,
      la_batch_size = data_batch_size config,
      la_test_resolutions = data_test_resolutions config,
      la_n_tests = data_n_tests config,
      la_test_batch_sizes = data_test_batch_sizes config,
      la_encode_input = data_encode_input config,
      la_encode_output = data_encode_output config\<rparr>"

definition make_trainer :: "config \<Rightarrow> model \<Rightarrow> data_processor \<Rightarrow> device \<Rightarrow> trainer" where
  "make_trainer config mdl data_processor dev =
     \<lparr>tr_model = mdl,
      tr_n_epochs = opt_n_epochs config,
      tr_data_processor = data_processor,
      tr_device = dev,
      tr_mixed_precision = opt_mixed_precision config,
      tr_eval_interval = opt_eval_interval config,
      tr_log_output = wandb_log_output config,
      tr_use_distributed = distributed_use_distributed config,
      tr_verbose = verbose config,
      tr_wandb_log = False\<rparr>"

definition make_eval_losses :: "env \<Rightarrow> losses prog" where
  "make_eval_losses ev =
     bind (attempt ev (S_LpLoss 2 2) (LpLoss 2 2)) (\<lambda>l2loss.
     bind (attempt ev (S_H1Loss 2) (H1Loss 2)) (\<lambda>h1loss.
     ret [(''h1'', h1loss), (''l2'', l2loss)]))"

definition print_config :: "config \<Rightarrow> unit prog" where
  "print_config config =
     (if verbose config then
        bind (emit (Print (''##### CONFIG #####'' @ [CHR 0x0A]))) (\<lambda>_.
        emit (PrintConfig config))
      else ret ())"

definition build_trainer ::
  "env \<Rightarrow> config \<Rightarrow> model \<Rightarrow> data_processor \<Rightarrow> device \<Rightarrow> loader \<Rightarrow> loaders
     \<Rightarrow> (trainer \<times> loader \<times> loaders \<times> losses) prog" where
  "build_trainer ev config mdl data_processor dev train_loader test_loaders =
     bind (distributed_setup ev config train_loader test_loaders)
       (\<lambda>(train_loader', test_loaders').
     bind (attempt ev (S_AdamW mdl (opt_learning_rate config))
             (AdamW mdl (opt_learning_rate config))) (\<lambda>optimizer.
     bind (attempt ev (S_StepLR optimizer 100 (PyFloat 1 (- 1)))
             (StepLR optimizer 100 (PyFloat 1 (- 1)))) (\<lambda>scheduler.
     bind (make_eval_losses ev) (\<lambda>eval_losses.
     bind (attempt ev (S_Trainer (make_trainer config mdl data_processor dev))
             (make_trainer config mdl data_processor dev)) (\<lambda>trainer.
     bind (emit (E_Trainer trainer)) (\<lambda>_.
     ret (trainer, train_loader', test_loaders', eval_losses)))))))"

definition main_build :: "env \<Rightarrow> config \<Rightarrow> (trainer \<times> loader \<times> loaders \<times> losses) prog" where
  "main_build ev config0 =
     bind (call (E_setup config0) (setup_py ev config0)) (\<lambda>(dev, is_logger).
     let config = config0\<lparr>verbose := verbose config0 \<and> is_logger\<rparr> in
     bind (print_config config) (\<lambda>_.
     bind (attempt ev (S_expanduser (data_folder config)) (expanduser ev (data_folder config)))
       (\<lambda>data_dir.
     bind (emit (Print ''Loading data...'')) (\<lambda>_.
     let la = make_load_args data_dir config in
     bind (call (E_load_navier_stokes_pt la) (load_navier_stokes_pt ev la))
       (\<lambda>(train_loader, test_loaders, data_processor).
     bind (call (E_get_model config) (get_model ev config)) (\<lambda>mdl0.
     bind (call (E_model_to mdl0 dev) (model_to ev mdl0 dev)) (\<lambda>mdl.
     bind (patching_setup ev config mdl data_processor) (\<lambda>data_processor1.
     bind (call (E_processor_to data_processor1 dev) (processor_to ev data_processor1 dev))
       (\<lambda>data_processor2.
     build_trainer ev config mdl data_processor2 dev train_loader test_loaders)))))))))"

text \<open>Lines 147-173: the checkpoint, the evaluation, the metrics, the teardown.\<close>

definition quoted :: "string \<Rightarrow> string" where
  "quoted s = [CHR 0x27] @ s @ [CHR 0x27]"

definition hint_message :: string where
  "hint_message =
     ''Ensure you pointed to a directory containing '' @ quoted ''best_model_state_dict.pt''
     @ '' or '' @ quoted ''model_state_dict.pt''"

definition print_metric :: "string \<times> string \<Rightarrow> event" where
  "print_metric kv = Print (fst kv @ '': '' @ snd kv)"

fun print_metrics :: "metrics \<Rightarrow> unit prog" where
  "print_metrics [] = ret ()"
| "print_metrics (kv # rest) = bind (emit (print_metric kv)) (\<lambda>_. print_metrics rest)"

definition load_checkpoint :: "env \<Rightarrow> trainer \<Rightarrow> path \<Rightarrow> unit prog" where
  "load_checkpoint ev trainer checkpoint_dir =
     try_except
       (bind (call (E_resume_state_from_dir trainer checkpoint_dir)
                (resume_state_from_dir ev trainer checkpoint_dir)) (\<lambda>_.
        emit (Print ''Checkpoint loaded successfully.'')))
       (\<lambda>e.
        bind (emit (Print (''Error loading checkpoint: '' @ exc_str e))) (\<lambda>_.
        bind (emit (Print hint_message)) (\<lambda>_.
        raise (SystemExit 1))))"

definition evaluation_header :: string where
  "evaluation_header = [CHR 0x0A] @ ''### Evaluation Results ###''"

definition main_finish :: "env \<Rightarrow> trainer \<Rightarrow> string \<Rightarrow> losses \<Rightarrow> loaders \<Rightarrow> unit prog" where
  "main_finish ev trainer args_checkpoint eval_losses test_loaders =
     (let checkpoint_dir = Path args_checkpoint in
      bind (emit (Print (''Loading checkpoint from '' @ path_str ev checkpoint_dir @ ''...''))) (\<lambda>_.
      bind (load_checkpoint ev trainer checkpoint_dir) (\<lambda>_.
      bind (emit (Print ''Starting evaluation...'')) (\<lambda>_.
      bind (call (E_evaluate_all trainer 0 eval_losses test_loaders [])
              (evaluate_all ev trainer 0 eval_losses test_loaders [])) (\<lambda>metrics.
      bind (emit (Print evaluation_header)) (\<lambda>_.
      bind (print_metrics metrics) (\<lambda>_.
      bind (emit (E_is_initialized (is_initialized ev))) (\<lambda>_.
      if is_initialized ev then
        call E_destroy_process_group (destroy_process_group ev)
      else ret ()))))))))"

definition main :: "env \<Rightarrow> string list \<Rightarrow> unit prog" where
  "main ev argv =
     bind (main_configure ev argv) (\<lambda>(args_checkpoint, config).
     bind (main_build ev config) (\<lambda>(trainer, train_loader, test_loaders, eval_losses).
     main_finish ev trainer args_checkpoint eval_losses test_loaders))"


section \<open>A sample run\<close>

text \<open>
  A world in which every call and every construction succeeds: the command line names a TOML file, the data
  set has two test resolutions, a process group is initialized.
\<close>

definition example_toml :: "(string \<times> toml) list" where
  "example_toml =
     [(''data'', Table [(''batch_size'', Leaf (TInt 8)),
                        (''folder'', Leaf (TStr ''~/data/navier_stokes''))]),
      (''verbose'', Leaf (TBool True))]"

definition example_config :: config where
  "example_config =
     \<lparr>verbose = True,
      data_folder = ''~/data/navier_stokes'',
      data_train_resolution = 128,
      data_n_train = 10000,
      data_batch_size = 8,
      data_test_resolutions = [128, 1024],
      data_n_tests = [2000, 1000],
      data_test_batch_sizes = [8, 4],
      data_encode_input = True,
      data_encode_output = True,
      patching_levels = 0,
      patching_padding = PyFloat 0 0,
      patching_stitching = True,
      distributed_use_distributed = False,
      opt_learning_rate = PyFloat 3 (- 10),
      opt_n_epochs = 600,
      opt_mixed_precision = False,
      opt_eval_interval = 1,
      wandb_log_output = True,
      wandb_log = True\<rparr>"

definition example_train_loader :: loader where
  "example_train_loader = DataLoader (Dataset 0) 8 (Some True) None"

definition example_test_loaders :: loaders where
  "example_test_loaders =
     [(128, DataLoader (Dataset 1) 8 (Some False) None),
      (1024, DataLoader (Dataset 2) 4 (Some False) None)]"

definition example_processor :: data_processor where
  "example_processor = DefaultDataProcessor (Normalizer 0) (Normalizer 1)"

definition example_metrics :: metrics where
  "example_metrics = [(''128_h1'', ''0.02''), (''128_l2'', ''0.01'')]"

definition example_env :: env where
  "example_env =
     \<lparr>parse_known_args = (\<lambda>args. Inr (Some ''ns.toml'', None, [''--wandb.log'', ''True''])),
      read_toml = (\<lambda>p. Inr example_toml),
      make_config_from_cli = (\<lambda>argv. Inr example_config),
      setup_py = (\<lambda>c. Inr (Device ''cuda:0'', True)),
      expanduser = (\<lambda>s. Path s),
      load_navier_stokes_pt =
        (\<lambda>la. Inr (example_train_loader, example_test_loaders, example_processor)),
      get_model = (\<lambda>c. Inr (Model 0)),
      model_to = (\<lambda>m d. Inr m),
      processor_to = (\<lambda>p d. Inr p),
      get_local_rank = 0,
      path_str = (\<lambda>p. case p of Path s \<Rightarrow> s),
      resume_state_from_dir = (\<lambda>t p. Inr ()),
      evaluate_all = (\<lambda>t ep ls tls ms. Inr example_metrics),
      is_initialized = True,
      destroy_process_group = Inr (),
      raises = (\<lambda>s. None)\<rparr>"

definition example_argv :: "string list" where
  "example_argv = [''evaluate_navier_stokes.py'', ''--config'', ''ns.toml'', ''--wandb.log'', ''True'']"

definition example_trainer :: trainer where
  "example_trainer = make_trainer example_config (Model 0) example_processor (Device ''cuda:0'')"

section \<open>Notions used in the statements\<close>

text \<open>One leaf of the TOML dictionary as a pair of arguments, after a prefix.\<close>

definition arg_pair :: "string \<Rightarrow> string list \<times> tval \<Rightarrow> string list" where
  "arg_pair q kx = [''--'' @ q @ spec_dotted (fst kx), str_py (snd kx)]"

text \<open>The events each part of the script can produce.\<close>

fun configure_event :: "event \<Rightarrow> bool" where
  "configure_event E_sys_path_insert = True"
| "configure_event (E_parse_known_args a r) = True"
| "configure_event (E_read_toml p r) = True"
| "configure_event (E_set_argv a) = True"
| "configure_event (E_make_config_from_cli a r) = True"
| "configure_event (E_raised s e) = True"
| "configure_event _ = False"

fun build_event :: "event \<Rightarrow> bool" where
  "build_event (Print s) = True"
| "build_event (PrintConfig c) = True"
| "build_event (E_setup c r) = True"
| "build_event (E_load_navier_stokes_pt la r) = True"
| "build_event (E_get_model c r) = True"
| "build_event (E_model_to m d r) = True"
| "build_event (E_processor_to p d r) = True"
| "build_event (E_Trainer t) = True"
| "build_event (E_raised s e) = True"
| "build_event _ = False"

fun finish_event :: "event \<Rightarrow> bool" where
  "finish_event (Print s) = True"
| "finish_event (E_resume_state_from_dir t p r) = True"
| "finish_event (E_evaluate_all t ep ls tls ms r) = True"
| "finish_event (E_is_initialized b) = True"
| "finish_event (E_destroy_process_group r) = True"
| "finish_event _ = False"

text \<open>
  The exception a library call or a construction raised, and the calls of the
  evaluation.
\<close>

fun call_raised :: "event \<Rightarrow> pyexc option" where
  "call_raised (E_parse_known_args a (Inl e)) = Some e"
| "call_raised (E_read_toml p (Inl e)) = Some e"
| "call_raised (E_make_config_from_cli a (Inl e)) = Some e"
| "call_raised (E_setup c (Inl e)) = Some e"
| "call_raised (E_load_navier_stokes_pt la (Inl e)) = Some e"
| "call_raised (E_get_model c (Inl e)) = Some e"
| "call_raised (E_model_to m d (Inl e)) = Some e"
| "call_raised (E_processor_to p d (Inl e)) = Some e"
| "call_raised (E_resume_state_from_dir t p (Inl e)) = Some e"
| "call_raised (E_evaluate_all t ep ls tls ms (Inl e)) = Some e"
| "call_raised (E_destroy_process_group (Inl e)) = Some e"
| "call_raised (E_raised s e) = Some e"
| "call_raised _ = None"

fun is_evaluate_all :: "event \<Rightarrow> bool" where
  "is_evaluate_all (E_evaluate_all t ep ls tls ms r) = True"
| "is_evaluate_all _ = False"

text \<open>
  A piece made of constructions only leaves no event when it returns, and the event of
  the construction that raised when it does not.
\<close>

definition quiet :: "'a prog \<Rightarrow> bool" where
  "quiet m = (case snd m of Inr v \<Rightarrow> fst m = [] | Inl x \<Rightarrow> (\<exists>s. fst m = [E_raised s x]))"

text \<open>
  In a piece without a handler, a call that raises is the last event, and what it
  raised is the outcome.
\<close>

definition events_all :: "(event \<Rightarrow> bool) \<Rightarrow> 'a prog \<Rightarrow> bool" where
  "events_all P m = (\<forall>e \<in> set (fst m). P e)"

definition raises_last :: "'a prog \<Rightarrow> bool" where
  "raises_last m =
     (\<forall>e \<in> set (fst m). \<forall>x. call_raised e = Some x \<longrightarrow> snd m = Inl x \<and> last (fst m) = e)"

text \<open>The data processor that is moved to the device (lines 97-106).\<close>

definition patched_processor :: "config \<Rightarrow> model \<Rightarrow> data_processor \<Rightarrow> data_processor" where
  "patched_processor c m dp =
     (if patching_levels c > 0
      then MGPatchingDataProcessor m (in_normalizer dp) (out_normalizer dp)
             (patching_padding c) (patching_stitching c) (patching_levels c)
             (distributed_use_distributed c)
      else dp)"

text \<open>What \<open>main_build\<close> does before it loads the data.\<close>

definition build_prefix :: "config \<Rightarrow> config \<Rightarrow> device \<Rightarrow> bool \<Rightarrow> event list" where
  "build_prefix c0 c dev lg =
     E_setup c0 (Inr (dev, lg))
     # (if verbose c then [Print (''##### CONFIG #####'' @ [CHR 0x0A]), PrintConfig c] else [])
     @ [Print ''Loading data...'']"

section \<open>The monad of traces\<close>

lemma fst_bind: "fst (bind m f) = fst m @ (case snd m of Inl e \<Rightarrow> [] | Inr x \<Rightarrow> fst (f x))"
  by (simp add: bind_def split: sum.splits)

lemma snd_bind: "snd (bind m f) = (case snd m of Inl e \<Rightarrow> Inl e | Inr x \<Rightarrow> snd (f x))"
  by (simp add: bind_def split: sum.splits)

lemma bind_simps [simp]:
  "bind (tr, Inl e) f = (tr, Inl e)"
  "bind (tr, Inr x) f = (tr @ fst (f x), snd (f x))"
  by (simp_all add: bind_def)

lemma print_metrics_eq: "print_metrics ms = (map print_metric ms, Inr ())"
  by (induction ms) (simp_all add: ret_def emit_def)

lemma print_config_eq:
  "print_config c = ((if verbose c then [Print (''##### CONFIG #####'' @ [CHR 0x0A]), PrintConfig c] else []), Inr ())"
  by (simp add: print_config_def emit_def ret_def)

lemma load_checkpoint_eq:
  "load_checkpoint ev t p =
     (case resume_state_from_dir ev t p of
        Inr u \<Rightarrow> ([E_resume_state_from_dir t p (Inr u), Print ''Checkpoint loaded successfully.''], Inr ())
      | Inl e \<Rightarrow>
          (if is_Exception e then
             ([E_resume_state_from_dir t p (Inl e), Print (''Error loading checkpoint: '' @ exc_str e),
               Print hint_message], Inl (SystemExit 1))
           else ([E_resume_state_from_dir t p (Inl e)], Inl e)))"
  by (simp add: load_checkpoint_def try_except_def call_def emit_def raise_def bind_def
      split: sum.splits)

section \<open>Constructions\<close>

lemma quiet_cases:
  "quiet m \<Longrightarrow> (\<exists>v. m = ([], Inr v)) \<or> (\<exists>s x. m = ([E_raised s x], Inl x))"
  by (cases m) (auto simp: quiet_def split: sum.splits)

lemma quiet_ret [simp]: "quiet (ret v)"
  by (simp add: quiet_def ret_def)

lemma quiet_fail [simp]: "quiet (fail s e)"
  by (simp add: quiet_def fail_def)

lemma quiet_attempt [simp]: "quiet (attempt ev s v)"
  by (simp add: attempt_def split: option.splits)

lemma quiet_bind:
  assumes "quiet m" and "\<And>x. quiet (f x)"
  shows "quiet (bind m f)"
  using quiet_cases[OF assms(1)]
proof (elim disjE exE)
  fix v
  assume "m = ([], Inr v)"
  then have "bind m f = f v" by simp
  then show ?thesis using assms(2) by simp
next
  fix s x
  assume "m = ([E_raised s x], Inl x)"
  then show ?thesis by (simp add: quiet_def)
qed

lemma quiet_distributed_loader [simp]: "quiet (distributed_loader ev ld bs sh)"
  by (simp add: distributed_loader_def Let_def quiet_bind)

lemma quiet_wrap_test_loaders [simp]: "quiet (wrap_test_loaders ev zs tls)"
  by (induction ev zs tls rule: wrap_test_loaders.induct) (simp_all add: quiet_bind)

lemma quiet_distributed_setup [simp]: "quiet (distributed_setup ev c trl tls)"
  by (simp add: distributed_setup_def quiet_bind)

lemma quiet_make_eval_losses [simp]: "quiet (make_eval_losses ev)"
  by (simp add: make_eval_losses_def quiet_bind)

lemma quiet_patching_setup [simp]: "quiet (patching_setup ev c m dp)"
  by (simp add: patching_setup_def Let_def)

lemma make_eval_losses_ok:
  "snd (make_eval_losses ev) = Inr el \<Longrightarrow> el = [(''h1'', H1Loss 2), (''l2'', LpLoss 2 2)]"
  by (auto simp: make_eval_losses_def attempt_def fail_def ret_def split: option.splits)

lemma build_trainer_cases:
  "(\<exists>s x. build_trainer ev c m dp dev trl tls = ([E_raised s x], Inl x))
   \<or> (\<exists>trl' tls'. snd (distributed_setup ev c trl tls) = Inr (trl', tls')
        \<and> build_trainer ev c m dp dev trl tls =
            ([E_Trainer (make_trainer c m dp dev)],
             Inr (make_trainer c m dp dev, trl', tls', [(''h1'', H1Loss 2), (''l2'', LpLoss 2 2)])))"
  using quiet_cases[OF quiet_distributed_setup[of ev c trl tls]]
    quiet_cases[OF quiet_make_eval_losses[of ev]] make_eval_losses_ok[of ev]
  by (auto simp: build_trainer_def attempt_def fail_def emit_def ret_def split: option.splits)

section \<open>The three parts of the script\<close>

lemma call_raised_iff [simp]:
  "call_raised (E_parse_known_args a r1) = Some x \<longleftrightarrow> r1 = Inl x"
  "call_raised (E_read_toml p r2) = Some x \<longleftrightarrow> r2 = Inl x"
  "call_raised (E_make_config_from_cli a r3) = Some x \<longleftrightarrow> r3 = Inl x"
  "call_raised (E_setup c r4) = Some x \<longleftrightarrow> r4 = Inl x"
  "call_raised (E_load_navier_stokes_pt la r5) = Some x \<longleftrightarrow> r5 = Inl x"
  "call_raised (E_get_model c r6) = Some x \<longleftrightarrow> r6 = Inl x"
  "call_raised (E_model_to m d r7) = Some x \<longleftrightarrow> r7 = Inl x"
  "call_raised (E_processor_to dp d r8) = Some x \<longleftrightarrow> r8 = Inl x"
  "call_raised (E_resume_state_from_dir t pa r9) = Some x \<longleftrightarrow> r9 = Inl x"
  "call_raised (E_evaluate_all t ep ls tls ms r10) = Some x \<longleftrightarrow> r10 = Inl x"
  "call_raised (E_destroy_process_group r11) = Some x \<longleftrightarrow> r11 = Inl x"
  subgoal by (cases r1) simp_all
  subgoal by (cases r2) simp_all
  subgoal by (cases r3) simp_all
  subgoal by (cases r4) simp_all
  subgoal by (cases r5) simp_all
  subgoal by (cases r6) simp_all
  subgoal by (cases r7) simp_all
  subgoal by (cases r8) simp_all
  subgoal by (cases r9) simp_all
  subgoal by (cases r10) simp_all
  subgoal by (cases r11) simp_all
  done

lemma events_all_bind:
  assumes "events_all P m" and "\<And>x. events_all P (f x)"
  shows "events_all P (bind m f)"
  using assms by (auto simp: events_all_def fst_bind split: sum.splits)

lemma raises_last_bind:
  assumes "raises_last m" and "\<And>x. raises_last (f x)"
  shows "raises_last (bind m f)"
proof (cases "snd m")
  case (Inl x)
  then show ?thesis using assms(1) by (simp add: raises_last_def bind_def)
next
  case (Inr v)
  have n: "\<forall>e \<in> set (fst m). call_raised e = None"
    using assms(1) Inr by (fastforce simp: raises_last_def)
  show ?thesis
    unfolding raises_last_def
  proof (intro ballI allI impI)
    fix e x
    assume e: "e \<in> set (fst (bind m f))" and c: "call_raised e = Some x"
    then have i: "e \<in> set (fst (f v))" using n Inr by (auto simp: fst_bind)
    then have "snd (f v) = Inl x \<and> last (fst (f v)) = e"
      using assms(2)[of v] c by (simp add: raises_last_def)
    moreover have "fst (f v) \<noteq> []" using i by auto
    ultimately show "snd (bind m f) = Inl x \<and> last (fst (bind m f)) = e"
      using Inr by (simp add: fst_bind snd_bind)
  qed
qed

lemma raises_last_simps [simp]:
  "raises_last (ret v)"
  "raises_last (raise e)"
  "raises_last (fail s e)"
  "raises_last (attempt ev s v)"
  by (simp_all add: raises_last_def ret_def raise_def fail_def attempt_def split: option.splits)

lemma raises_last_emit: "call_raised e = None \<Longrightarrow> raises_last (emit e)"
  by (simp add: raises_last_def emit_def)

lemma raises_last_call:
  "(\<And>x. call_raised (c r) = Some x \<Longrightarrow> r = Inl x) \<Longrightarrow> raises_last (call c r)"
  by (simp add: raises_last_def call_def)

lemma quiet_raises_last: "quiet m \<Longrightarrow> raises_last m"
  by (drule quiet_cases) (auto simp: raises_last_def)

lemma bind_InrE:
  assumes "snd (bind m f) = Inr r"
  obtains v where "snd m = Inr v" and "snd (f v) = Inr r"
  using assms by (auto simp: snd_bind split: sum.splits)

section \<open>The three parts of the script\<close>

lemma events_all_simps [simp]:
  "events_all P (ret v)"
  "events_all P (raise x)"
  "events_all P (emit e') \<longleftrightarrow> P e'"
  "events_all P (call c r) \<longleftrightarrow> P (c r)"
  "events_all P (fail s x) \<longleftrightarrow> P (E_raised s x)"
  by (simp_all add: events_all_def ret_def raise_def emit_def call_def fail_def)

lemma events_all_attempt: "(\<And>x. P (E_raised s x)) \<Longrightarrow> events_all P (attempt ev s v)"
  by (simp add: attempt_def split: option.splits)

lemma configure_events_all: "events_all configure_event (main_configure ev argv)"
  unfolding main_configure_def argument_parser_def Let_def
  by (auto intro!: events_all_bind events_all_attempt
      split: prod.splits option.splits list.splits)

lemma configure_events: "e \<in> set (fst (main_configure ev argv)) \<Longrightarrow> configure_event e"
  using configure_events_all[of ev argv] by (simp add: events_all_def)

lemma configure_raises_last: "raises_last (main_configure ev argv)"
  unfolding main_configure_def argument_parser_def Let_def
  by (auto intro!: raises_last_bind raises_last_emit raises_last_call
      split: prod.splits option.splits list.splits)

lemma configure_raises:
  "e \<in> set (fst (main_configure ev argv)) \<Longrightarrow> call_raised e = Some x \<Longrightarrow>
   snd (main_configure ev argv) = Inl x \<and> last (fst (main_configure ev argv)) = e"
  using configure_raises_last[of ev argv] by (simp add: raises_last_def)

lemma configure_checkpoint:
  "snd (main_configure ev argv) = Inr (ck, c) \<Longrightarrow>
   parse_known_args ev (tl argv) = Inr (co, so, unknown) \<Longrightarrow>
   ck = (case so of None \<Rightarrow> ''./ckpt'' | Some x \<Rightarrow> x)"
  unfolding main_configure_def Let_def
  by (auto elim!: bind_InrE simp: call_def ret_def split: prod.splits)


lemma build_events_all: "events_all build_event (main_build ev c0)"
proof -
  have t: "events_all build_event (build_trainer ev c m dp dev trl tls)" for c m dp dev trl tls
    using build_trainer_cases[of ev c m dp dev trl tls] by (auto simp: events_all_def)
  have p: "events_all build_event (patching_setup ev c m dp)" for c m dp
    using quiet_cases[OF quiet_patching_setup[of ev c m dp]] by (auto simp: events_all_def)
  show ?thesis
    unfolding main_build_def Let_def print_config_def
    by (auto intro!: events_all_bind events_all_attempt t p split: prod.splits)
qed

lemma build_events: "e \<in> set (fst (main_build ev c0)) \<Longrightarrow> build_event e"
  using build_events_all[of ev c0] by (simp add: events_all_def)

lemma build_raises_last: "raises_last (main_build ev c0)"
proof -
  have t: "raises_last (build_trainer ev c m dp dev trl tls)" for c m dp dev trl tls
    using build_trainer_cases[of ev c m dp dev trl tls] by (auto simp: raises_last_def)
  have p: "raises_last (patching_setup ev c m dp)" for c m dp
    by (rule quiet_raises_last) simp
  show ?thesis
    unfolding main_build_def Let_def print_config_def
    by (auto intro!: raises_last_bind raises_last_emit raises_last_call t p
        split: prod.splits)
qed

lemma build_raises:
  "e \<in> set (fst (main_build ev c0)) \<Longrightarrow> call_raised e = Some x \<Longrightarrow>
   snd (main_build ev c0) = Inl x \<and> last (fst (main_build ev c0)) = e"
  using build_raises_last[of ev c0] by (simp add: raises_last_def)

lemma patching_setup_eq:
  "patching_setup ev c m dp =
     (case (if patching_levels c > 0
            then raises ev (S_MGPatchingDataProcessor (patched_processor c m dp)) else None) of
        Some e \<Rightarrow> ([E_raised (S_MGPatchingDataProcessor (patched_processor c m dp)) e], Inl e)
      | None \<Rightarrow> ([], Inr (patched_processor c m dp)))"
  by (simp add: patching_setup_def patched_processor_def attempt_def fail_def ret_def Let_def
      split: option.splits)

lemma patched_processor_verbose [simp]:
  "patched_processor (c\<lparr>verbose := b\<rparr>) m dp = patched_processor c m dp"
  by (simp add: patched_processor_def)

lemma distributed_setup_verbose [simp]:
  "distributed_setup ev (c\<lparr>verbose := b\<rparr>) trl tls = distributed_setup ev c trl tls"
  by (simp add: distributed_setup_def)

lemmas build_unfold = main_build_def Let_def call_def emit_def ret_def attempt_def fail_def
  print_config_eq build_prefix_def

text \<open>The runs of \<open>main_build\<close>, by the first step that raises.\<close>

lemma main_build_elim:
  assumes "main_build ev c0 = (tr, res)"
  obtains
    (setup_fails) e where
      "tr = [E_setup c0 (Inl e)]" "res = Inl e"
  | (expanduser_fails) dev lg e where
      "tr = E_setup c0 (Inr (dev, lg))
            # fst (print_config (c0\<lparr>verbose := verbose c0 \<and> lg\<rparr>))
            @ [E_raised (S_expanduser (data_folder c0)) e]"
      "res = Inl e"
  | (load_fails) dev lg la e where
      "tr = build_prefix c0 (c0\<lparr>verbose := verbose c0 \<and> lg\<rparr>) dev lg
            @ [E_load_navier_stokes_pt la (Inl e)]"
      "res = Inl e"
  | (get_model_fails) dev lg la trl tls dp e where
      "tr = build_prefix c0 (c0\<lparr>verbose := verbose c0 \<and> lg\<rparr>) dev lg
            @ [E_load_navier_stokes_pt la (Inr (trl, tls, dp)),
               E_get_model (c0\<lparr>verbose := verbose c0 \<and> lg\<rparr>) (Inl e)]"
      "res = Inl e"
  | (model_to_fails) dev lg la trl tls dp m0 e where
      "tr = build_prefix c0 (c0\<lparr>verbose := verbose c0 \<and> lg\<rparr>) dev lg
            @ [E_load_navier_stokes_pt la (Inr (trl, tls, dp)),
               E_get_model (c0\<lparr>verbose := verbose c0 \<and> lg\<rparr>) (Inr m0),
               E_model_to m0 dev (Inl e)]"
      "res = Inl e"
  | (patching_fails) dev lg la trl tls dp m0 m e where
      "patching_levels c0 > 0"
      "tr = build_prefix c0 (c0\<lparr>verbose := verbose c0 \<and> lg\<rparr>) dev lg
            @ [E_load_navier_stokes_pt la (Inr (trl, tls, dp)),
               E_get_model (c0\<lparr>verbose := verbose c0 \<and> lg\<rparr>) (Inr m0),
               E_model_to m0 dev (Inr m),
               E_raised (S_MGPatchingDataProcessor (patched_processor c0 m dp)) e]"
      "res = Inl e"
  | (processor_to_fails) dev lg la trl tls dp m0 m e where
      "processor_to ev (patched_processor c0 m dp) dev = Inl e"
      "tr = build_prefix c0 (c0\<lparr>verbose := verbose c0 \<and> lg\<rparr>) dev lg
            @ [E_load_navier_stokes_pt la (Inr (trl, tls, dp)),
               E_get_model (c0\<lparr>verbose := verbose c0 \<and> lg\<rparr>) (Inr m0),
               E_model_to m0 dev (Inr m),
               E_processor_to (patched_processor c0 m dp) dev (Inl e)]"
      "res = Inl e"
  | (trainer_fails) dev lg la trl tls dp m0 m dp2 s e where
      "processor_to ev (patched_processor c0 m dp) dev = Inr dp2"
      "tr = build_prefix c0 (c0\<lparr>verbose := verbose c0 \<and> lg\<rparr>) dev lg
            @ [E_load_navier_stokes_pt la (Inr (trl, tls, dp)),
               E_get_model (c0\<lparr>verbose := verbose c0 \<and> lg\<rparr>) (Inr m0),
               E_model_to m0 dev (Inr m),
               E_processor_to (patched_processor c0 m dp) dev (Inr dp2),
               E_raised s e]"
      "res = Inl e"
  | (built) dev lg la trl tls dp m0 m dp2 trl' tls' where
      "processor_to ev (patched_processor c0 m dp) dev = Inr dp2"
      "snd (distributed_setup ev c0 trl tls) = Inr (trl', tls')"
      "tr = build_prefix c0 (c0\<lparr>verbose := verbose c0 \<and> lg\<rparr>) dev lg
            @ [E_load_navier_stokes_pt la (Inr (trl, tls, dp)),
               E_get_model (c0\<lparr>verbose := verbose c0 \<and> lg\<rparr>) (Inr m0),
               E_model_to m0 dev (Inr m),
               E_processor_to (patched_processor c0 m dp) dev (Inr dp2),
               E_Trainer (make_trainer (c0\<lparr>verbose := verbose c0 \<and> lg\<rparr>) m dp2 dev)]"
      "res = Inr (make_trainer (c0\<lparr>verbose := verbose c0 \<and> lg\<rparr>) m dp2 dev, trl', tls',
                  [(''h1'', H1Loss 2), (''l2'', LpLoss 2 2)])"
proof -
  have tr: "tr = fst (main_build ev c0)" and res: "res = snd (main_build ev c0)"
    using assms by simp_all
  show ?thesis
  proof (cases "setup_py ev c0")
  case (Inl e)
  then show ?thesis using tr res setup_fails by (simp add: build_unfold)
next
  case (Inr a)
  obtain dev lg where a: "a = (dev, lg)" by (cases a)
  define c where "c = c0\<lparr>verbose := verbose c0 \<and> lg\<rparr>"
  have s: "setup_py ev c0 = Inr (dev, lg)" using Inr a by simp
  show ?thesis
  proof (cases "raises ev (S_expanduser (data_folder c0))")
    case (Some e)
    then show ?thesis using tr res s expanduser_fails[where dev=dev and lg=lg and e=e] by (simp add: build_unfold)
  next
    case None
    define la where "la = make_load_args (expanduser ev (data_folder c0)) c"
    show ?thesis
    proof (cases "load_navier_stokes_pt ev la")
      case (Inl e)
      then show ?thesis
        using tr res s None load_fails[where dev=dev and lg=lg and la=la and e=e] by (simp add: build_unfold la_def c_def)
    next
      case (Inr b)
      obtain trl tls dp where b: "b = (trl, tls, dp)" by (cases b)
      have l: "load_navier_stokes_pt ev la = Inr (trl, tls, dp)" using Inr b by simp
      show ?thesis
      proof (cases "get_model ev c")
        case (Inl e)
        then show ?thesis
          using tr res s None l get_model_fails[where dev=dev and lg=lg and la=la and trl=trl and tls=tls and dp=dp and e=e]
          by (simp add: build_unfold la_def c_def)
      next
        case (Inr m0)
        note g = this
        show ?thesis
        proof (cases "model_to ev m0 dev")
          case (Inl e)
          then show ?thesis
            using tr res s None l g model_to_fails[where dev=dev and lg=lg and la=la and trl=trl and tls=tls and dp=dp and ?m0.0=m0 and e=e]
            by (simp add: build_unfold la_def c_def)
        next
          case (Inr m)
          note mt = this
          show ?thesis
          proof (cases "patching_levels c0 > 0
                        \<and> raises ev (S_MGPatchingDataProcessor (patched_processor c0 m dp)) \<noteq> None")
            case True
            then obtain e where
              "raises ev (S_MGPatchingDataProcessor (patched_processor c0 m dp)) = Some e"
              by auto
            with True have pf: "patching_setup ev c m dp =
                ([E_raised (S_MGPatchingDataProcessor (patched_processor c0 m dp)) e], Inl e)"
              by (simp add: patching_setup_eq c_def)
            show ?thesis
              using tr res s None l g mt True pf
                patching_fails[where dev=dev and lg=lg and la=la and trl=trl and tls=tls
                  and dp=dp and ?m0.0=m0 and m=m and e=e]
              by (simp add: build_unfold la_def c_def)
          next
            case False
            then have pf: "patching_setup ev c m dp = ([], Inr (patched_processor c0 m dp))"
              by (auto simp: patching_setup_eq c_def)
            show ?thesis
            proof (cases "processor_to ev (patched_processor c0 m dp) dev")
              case (Inl e)
              then show ?thesis
                using tr res s None l g mt pf
                  processor_to_fails[where dev=dev and lg=lg and la=la and trl=trl and tls=tls and dp=dp and ?m0.0=m0 and m=m and e=e]
                by (simp add: build_unfold la_def c_def)
            next
              case (Inr dp2)
              note pt = this
              have pre: "main_build ev c0 =
                  (build_prefix c0 c dev lg
                   @ [E_load_navier_stokes_pt la (Inr (trl, tls, dp)),
                      E_get_model c (Inr m0), E_model_to m0 dev (Inr m),
                      E_processor_to (patched_processor c0 m dp) dev (Inr dp2)]
                   @ fst (build_trainer ev c m dp2 dev trl tls),
                   snd (build_trainer ev c m dp2 dev trl tls))"
                using s None l g mt pf pt by (simp add: build_unfold la_def c_def)
              from build_trainer_cases[of ev c m dp2 dev trl tls] show ?thesis
              proof (elim disjE exE conjE)
                fix s' x
                assume "build_trainer ev c m dp2 dev trl tls = ([E_raised s' x], Inl x)"
                then show ?thesis
                  using tr res pre pt trainer_fails[where dev=dev and lg=lg and la=la and trl=trl and tls=tls and dp=dp and ?m0.0=m0 and m=m and ?dp2.0=dp2 and s=s' and e=x]
                  by (simp add: c_def)
              next
                fix trl' tls'
                assume "snd (distributed_setup ev c trl tls) = Inr (trl', tls')"
                  and "build_trainer ev c m dp2 dev trl tls =
                       ([E_Trainer (make_trainer c m dp2 dev)],
                        Inr (make_trainer c m dp2 dev, trl', tls',
                             [(''h1'', H1Loss 2), (''l2'', LpLoss 2 2)]))"
                then show ?thesis
                  using tr res pre pt built[where dev=dev and lg=lg and la=la and trl=trl and tls=tls and dp=dp and ?m0.0=m0 and m=m and ?dp2.0=dp2 and trl'=trl' and tls'=tls']
                  by (simp add: c_def)
              qed
            qed
          qed
        qed
      qed
    qed
  qed
qed
qed

lemma build_trainer_result_aux:
  "main_build ev c0 = (tr, res) \<Longrightarrow> E_Trainer t \<in> set tr \<Longrightarrow>
   \<exists>trl tls el. res = Inr (t, trl, tls, el)"
  by (erule main_build_elim) (auto simp: build_prefix_def print_config_eq)

lemma build_trainer_result:
  "E_Trainer t \<in> set (fst (main_build ev c0)) \<Longrightarrow>
   \<exists>trl tls el. snd (main_build ev c0) = Inr (t, trl, tls, el)"
  using build_trainer_result_aux[of ev c0 "fst (main_build ev c0)" "snd (main_build ev c0)" t]
  by simp

lemma build_result_trainer_aux:
  "main_build ev c0 = (tr, Inr (t, trl, tls, el)) \<Longrightarrow>
   tr_wandb_log t = False \<and> el = [(''h1'', H1Loss 2), (''l2'', LpLoss 2 2)]
   \<and> E_Trainer t \<in> set tr"
  by (erule main_build_elim) (auto simp: make_trainer_def)

lemma build_result_trainer:
  "snd (main_build ev c0) = Inr (t, trl, tls, el) \<Longrightarrow>
   tr_wandb_log t = False \<and> el = [(''h1'', H1Loss 2), (''l2'', LpLoss 2 2)]
   \<and> E_Trainer t \<in> set (fst (main_build ev c0))"
  using build_result_trainer_aux[of ev c0 "fst (main_build ev c0)" t trl tls el]
  by (metis prod.collapse)

lemma build_verbose_aux:
  "main_build ev c0 = (tr, res) \<Longrightarrow> E_setup c (Inr (dev, lg)) \<in> set tr \<Longrightarrow>
   ((\<exists>c'. PrintConfig c' \<in> set tr) \<longleftrightarrow> verbose c \<and> lg)
   \<and> (\<forall>t. E_Trainer t \<in> set tr \<longrightarrow> tr_verbose t = (verbose c \<and> lg))"
  by (erule main_build_elim) (auto simp: build_prefix_def print_config_eq make_trainer_def)

lemma build_processor_aux:
  "main_build ev c0 = (tr, res) \<Longrightarrow> E_setup c sr \<in> set tr \<Longrightarrow>
   E_load_navier_stokes_pt la (Inr (trl, tls, dp)) \<in> set tr \<Longrightarrow>
   E_model_to m0 dev (Inr m) \<in> set tr \<Longrightarrow>
   (E_processor_to (patched_processor c m dp) dev
        (processor_to ev (patched_processor c m dp) dev) \<in> set tr
    \<or> (patching_levels c > 0
        \<and> (\<exists>x. E_raised (S_MGPatchingDataProcessor (patched_processor c m dp)) x \<in> set tr)))
   \<and> (\<forall>t. E_Trainer t \<in> set tr \<longrightarrow>
        processor_to ev (patched_processor c m dp) dev = Inr (tr_data_processor t)
        \<and> (\<exists>pre. tr = pre @ [E_processor_to (patched_processor c m dp) dev
                               (Inr (tr_data_processor t)),
                             E_Trainer t]))"
  by (erule main_build_elim) (auto simp: build_prefix_def print_config_eq make_trainer_def)

lemma build_loaders_aux:
  "main_build ev c0 = (tr, Inr (t, trl', tls', el)) \<Longrightarrow> E_setup c sr \<in> set tr \<Longrightarrow>
   E_load_navier_stokes_pt la (Inr (trl, tls0, dp)) \<in> set tr \<Longrightarrow>
   snd (distributed_setup ev c trl tls0) = Inr (trl', tls')"
  by (erule main_build_elim) (auto simp: build_prefix_def print_config_eq)


lemma finish_events: "e \<in> set (fst (main_finish ev t ck el tls)) \<Longrightarrow> finish_event e"
  by (auto simp: main_finish_def load_checkpoint_eq print_metrics_eq print_metric_def call_def emit_def ret_def Let_def fst_bind
      split: sum.splits prod.splits if_splits)

lemma main_finish_eq:
  "main_finish ev t ck el tls =
     (case resume_state_from_dir ev t (Path ck) of
        Inl e \<Rightarrow>
          (if is_Exception e then
             ([Print (''Loading checkpoint from '' @ path_str ev (Path ck) @ ''...''),
               E_resume_state_from_dir t (Path ck) (Inl e),
               Print (''Error loading checkpoint: '' @ exc_str e),
               Print hint_message], Inl (SystemExit 1))
           else
             ([Print (''Loading checkpoint from '' @ path_str ev (Path ck) @ ''...''),
               E_resume_state_from_dir t (Path ck) (Inl e)], Inl e))
      | Inr u \<Rightarrow>
          (case evaluate_all ev t 0 el tls [] of
             Inl e \<Rightarrow>
               ([Print (''Loading checkpoint from '' @ path_str ev (Path ck) @ ''...''),
                 E_resume_state_from_dir t (Path ck) (Inr u),
                 Print ''Checkpoint loaded successfully.'',
                 Print ''Starting evaluation...'',
                 E_evaluate_all t 0 el tls [] (Inl e)], Inl e)
           | Inr m \<Rightarrow>
               ([Print (''Loading checkpoint from '' @ path_str ev (Path ck) @ ''...''),
                 E_resume_state_from_dir t (Path ck) (Inr u),
                 Print ''Checkpoint loaded successfully.'',
                 Print ''Starting evaluation...'',
                 E_evaluate_all t 0 el tls [] (Inr m),
                 Print evaluation_header]
                @ map print_metric m
                @ (if is_initialized ev
                   then [E_is_initialized True, E_destroy_process_group (destroy_process_group ev)]
                   else [E_is_initialized False]),
                if is_initialized ev then destroy_process_group ev else Inr ())))"
  by (simp add: main_finish_def load_checkpoint_eq print_metrics_eq call_def emit_def ret_def
      Let_def bind_def evaluation_header_def split: sum.splits)

lemma main_cases:
  obtains (configure_fails) e where
      "snd (main_configure ev argv) = Inl e"
      "main ev argv = (fst (main_configure ev argv), Inl e)"
  | (build_fails) ck c e where
      "snd (main_configure ev argv) = Inr (ck, c)"
      "snd (main_build ev c) = Inl e"
      "main ev argv = (fst (main_configure ev argv) @ fst (main_build ev c), Inl e)"
  | (finishes) ck c t trl tls el where
      "snd (main_configure ev argv) = Inr (ck, c)"
      "snd (main_build ev c) = Inr (t, trl, tls, el)"
      "main ev argv = (fst (main_configure ev argv) @ fst (main_build ev c)
                         @ fst (main_finish ev t ck el tls),
                       snd (main_finish ev t ck el tls))"
proof (cases "snd (main_configure ev argv)")
  case (Inl e)
  then show ?thesis using configure_fails by (simp add: main_def bind_def)
next
  case (Inr a)
  obtain ck c where a: "a = (ck, c)" by (cases a)
  show ?thesis
  proof (cases "snd (main_build ev c)")
    case (Inl e)
    then show ?thesis using build_fails[of ck c e] Inr a by (simp add: main_def bind_def)
  next
    case (Inr b)
    obtain t trl tls el where b: "b = (t, trl, tls, el)" by (cases b)
    show ?thesis using finishes[of ck c t trl tls el] Inr b a \<open>snd (main_configure ev argv) = Inr a\<close>
      by (simp add: main_def bind_def)
  qed
qed

lemma main_event_cases:
  assumes "e \<in> set (fst (main ev argv))"
  obtains (in_configure) "e \<in> set (fst (main_configure ev argv))"
  | (in_build) ck c where
      "snd (main_configure ev argv) = Inr (ck, c)"
      "e \<in> set (fst (main_build ev c))"
  | (in_finish) ck c t trl tls el where
      "snd (main_configure ev argv) = Inr (ck, c)"
      "snd (main_build ev c) = Inr (t, trl, tls, el)"
      "e \<in> set (fst (main_finish ev t ck el tls))"
      "main ev argv = (fst (main_configure ev argv) @ fst (main_build ev c)
                         @ fst (main_finish ev t ck el tls),
                       snd (main_finish ev t ck el tls))"
  using assms by (cases rule: main_cases[of ev argv]) auto

lemma finish_trainer:
  "e \<in> set (fst (main_finish ev t ck el tls)) \<Longrightarrow>
   (\<forall>t' p r. e = E_resume_state_from_dir t' p r \<longrightarrow> t' = t \<and> p = Path ck \<and> r = resume_state_from_dir ev t (Path ck))
   \<and> (\<forall>t' ep el' tls' ms r. e = E_evaluate_all t' ep el' tls' ms r \<longrightarrow>
        t' = t \<and> ep = 0 \<and> el' = el \<and> tls' = tls \<and> ms = [] \<and> r = evaluate_all ev t 0 el tls [])"
  by (auto simp: main_finish_eq print_metric_def split: sum.splits if_splits)

lemma finish_raises_aux:
  "main_finish ev t ck el tls = (tr, res) \<Longrightarrow> e \<in> set tr \<Longrightarrow> call_raised e = Some x \<Longrightarrow>
   \<forall>t p r. e \<noteq> E_resume_state_from_dir t p r \<Longrightarrow>
   res = Inl x \<and> last tr = e"
  by (auto simp: main_finish_eq print_metric_def split: sum.splits if_splits)

lemma finish_raises:
  "e \<in> set (fst (main_finish ev t ck el tls)) \<Longrightarrow> call_raised e = Some x \<Longrightarrow>
   \<forall>t p r. e \<noteq> E_resume_state_from_dir t p r \<Longrightarrow>
   snd (main_finish ev t ck el tls) = Inl x \<and> last (fst (main_finish ev t ck el tls)) = e"
  using finish_raises_aux[OF surjective_pairing] .

lemma build_only_in_main:
  assumes "snd (main_configure ev argv) = Inr (ck, c0)"
    and "\<not> configure_event e" and "\<not> finish_event e"
  shows "e \<in> set (fst (main ev argv)) \<longleftrightarrow> e \<in> set (fst (main_build ev c0))"
proof (cases rule: main_cases[of ev argv])
  case (configure_fails e')
  then show ?thesis using assms by simp
next
  case (build_fails ck' c e')
  then show ?thesis using assms configure_events[of e ev argv] by auto
next
  case (finishes ck' c t trl tls el)
  then show ?thesis
    using assms configure_events[of e ev argv] finish_events[of e ev t ck' el tls] by auto
qed

lemma main_trace_build:
  "snd (main_configure ev argv) = Inr (ck, c0) \<Longrightarrow>
   \<exists>post. fst (main ev argv) = fst (main_configure ev argv) @ fst (main_build ev c0) @ post"
  by (simp add: main_def fst_bind)

lemma resume_in_main:
  assumes "E_resume_state_from_dir t p r \<in> set (fst (main ev argv))"
  obtains ck c trl tls el where
    "snd (main_configure ev argv) = Inr (ck, c)"
    "snd (main_build ev c) = Inr (t, trl, tls, el)"
    "p = Path ck" "r = resume_state_from_dir ev t p"
    "main ev argv = (fst (main_configure ev argv) @ fst (main_build ev c)
                         @ fst (main_finish ev t ck el tls),
                       snd (main_finish ev t ck el tls))"
proof (cases rule: main_cases[of ev argv])
  case (configure_fails e)
  then show ?thesis using assms configure_events[of "E_resume_state_from_dir t p r" ev argv] by simp
next
  case (build_fails ck c e)
  then show ?thesis using assms configure_events[of "E_resume_state_from_dir t p r" ev argv]
      build_events[of "E_resume_state_from_dir t p r" ev c] by auto
next
  case (finishes ck c t' trl tls el)
  then have "E_resume_state_from_dir t p r \<in> set (fst (main_finish ev t' ck el tls))"
    using assms configure_events[of "E_resume_state_from_dir t p r" ev argv]
      build_events[of "E_resume_state_from_dir t p r" ev c] by auto
  then have "t = t' \<and> p = Path ck \<and> r = resume_state_from_dir ev t p"
    by (auto simp: main_finish_eq print_metric_def split: sum.splits if_splits)
  then show ?thesis using finishes that by blast
qed

lemmas run_defs = main_def main_configure_def main_build_def main_finish_def load_checkpoint_def
  build_trainer_def argument_parser_def attempt_def fail_def
  try_except_def print_config_def print_metric_def call_def emit_def ret_def raise_def Let_def
  make_load_args_def make_trainer_def make_eval_losses_def patching_setup_def
  distributed_setup_def distributed_loader_def
  example_env_def example_toml_def example_config_def example_argv_def example_trainer_def
  example_train_loader_def example_test_loaders_def example_processor_def example_metrics_def

section \<open>Flattening\<close>

lemma spec_leaves_nonempty: "(ks, x) \<in> set (spec_leaves d) \<Longrightarrow> ks \<noteq> []"
  by (induction d rule: spec_leaves.induct) (auto split: toml.splits)

lemma spec_dotted_Cons: "ks \<noteq> [] \<Longrightarrow> spec_dotted (k # ks) = k @ ''.'' @ spec_dotted ks"
  by (cases ks) auto

lemma leaves_shift:
  "concat (map (arg_pair q) (map (\<lambda>(ks, x). (k # ks, x)) (spec_leaves t)))
   = concat (map (arg_pair (q @ k @ ''.'')) (spec_leaves t))"
proof -
  have "map (arg_pair q) (map (\<lambda>(ks, x). (k # ks, x)) (spec_leaves t))
        = map (arg_pair (q @ k @ ''.'')) (spec_leaves t)"
    by (auto simp: arg_pair_def spec_dotted_Cons dest: spec_leaves_nonempty)
  then show ?thesis by (simp only:)
qed

text \<open>Below a non-empty prefix every key is joined with a dot, empty or not.\<close>

lemma flatten_prefix:
  "p \<noteq> [] \<Longrightarrow> flatten_to_args d p = concat (map (arg_pair (p @ ''.'')) (spec_leaves d))"
proof (induction d p rule: flatten_to_args.induct)
  case (1 prefix)
  show ?case by simp
next
  case (2 k v d prefix)
  have c: "flatten_to_args d prefix = concat (map (arg_pair (prefix @ ''.'')) (spec_leaves d))"
    using 2(2)[OF refl 2(3)] .
  show ?case
  proof (cases v)
    case (Leaf x)
    have "flatten_to_args ((k, v) # d) prefix
          = [''--'' @ prefix @ ''.'' @ k, str_py x] @ flatten_to_args d prefix"
      using Leaf 2(3) by simp
    also have "\<dots> = arg_pair (prefix @ ''.'') ([k], x)
                      @ concat (map (arg_pair (prefix @ ''.'')) (spec_leaves d))"
      by (simp add: arg_pair_def c)
    also have "\<dots> = concat (map (arg_pair (prefix @ ''.'')) (spec_leaves ((k, v) # d)))"
      using Leaf by simp
    finally show ?thesis .
  next
    case (Table t)
    have a: "flatten_to_args t (prefix @ ''.'' @ k)
             = concat (map (arg_pair ((prefix @ ''.'' @ k) @ ''.'')) (spec_leaves t))"
      using 2(1)[OF refl Table] 2(3) by simp
    have "flatten_to_args ((k, v) # d) prefix
          = flatten_to_args t (prefix @ ''.'' @ k) @ flatten_to_args d prefix"
      using Table 2(3) by simp
    also have "\<dots> = concat (map (arg_pair ((prefix @ ''.'') @ k @ ''.'')) (spec_leaves t))
                      @ concat (map (arg_pair (prefix @ ''.'')) (spec_leaves d))"
      by (simp only: a c append_assoc)
    also have "\<dots> = concat (map (arg_pair (prefix @ ''.''))
                                (map (\<lambda>(ks, x). (k # ks, x)) (spec_leaves t)))
                      @ concat (map (arg_pair (prefix @ ''.'')) (spec_leaves d))"
      by (simp only: leaves_shift)
    also have "\<dots> = concat (map (arg_pair (prefix @ ''.'')) (spec_leaves ((k, v) # d)))"
      using Table by (simp del: map_map)
    finally show ?thesis .
  qed
qed

lemma spec_flat_args_alt: "spec_flat_args d = concat (map (arg_pair []) (spec_leaves d))"
proof -
  have "arg_pair [] = (\<lambda>(ks, x). [''--'' @ spec_dotted ks, str_py x])"
    by (rule ext) (simp add: arg_pair_def case_prod_unfold)
  then show ?thesis by (simp only: spec_flat_args_def)
qed

lemma flatten_top:
  assumes "\<forall>(k, v) \<in> set d. (\<exists>t. v = Table t) \<longrightarrow> k \<noteq> []"
  shows "flatten_to_args d [] = spec_flat_args d"
  using assms
proof (induction d)
  case Nil
  show ?case by (simp add: spec_flat_args_def)
next
  case (Cons kv d)
  obtain k v where kv: "kv = (k, v)" by (cases kv)
  have ih: "flatten_to_args d [] = concat (map (arg_pair []) (spec_leaves d))"
    using Cons by (auto simp: spec_flat_args_alt)
  show ?case
  proof (cases v)
    case (Leaf x)
    then show ?thesis using ih kv by (simp add: spec_flat_args_alt arg_pair_def)
  next
    case (Table t)
    then have ne: "k \<noteq> []" using Cons.prems kv by auto
    have "flatten_to_args (kv # d) [] = flatten_to_args t k @ flatten_to_args d []"
      using kv Table by simp
    also have "\<dots> = concat (map (arg_pair ([] @ k @ ''.'')) (spec_leaves t))
                      @ concat (map (arg_pair []) (spec_leaves d))"
      using flatten_prefix[OF ne, of t] ih by simp
    also have "\<dots> = concat (map (arg_pair []) (map (\<lambda>(ks, x). (k # ks, x)) (spec_leaves t)))
                      @ concat (map (arg_pair []) (spec_leaves d))"
      by (simp only: leaves_shift)
    also have "\<dots> = concat (map (arg_pair []) (spec_leaves (kv # d)))"
      using kv Table by (simp del: map_map)
    finally show ?thesis by (simp only: spec_flat_args_alt)
  qed
qed

text \<open>
  C2. The specification joins the keys of every path with dots. \<open>flatten_to_args\<close>
  tests the prefix for truth, not for being the top level, so a table under the empty
  top-level key (\<^verbatim>\<open>[""]\<close> in TOML) loses its key and its dot:
  \<^verbatim>\<open>{"": {"a": 1}}\<close> gives \<^verbatim>\<open>--a\<close> where the specification gives
  \<^verbatim>\<open>--.a\<close>, and that is the command line
  \<^verbatim>\<open>make_config_from_cli\<close> reads. One level down the same function keeps the empty
  key with its dot: \<^verbatim>\<open>{"a": {"": {"b": 1}}}\<close> gives \<^verbatim>\<open>--a..b\<close>.
\<close>

theorem flatten_empty_key_divergence:
  "flatten_to_args [([], Table [(''a'', Leaf (TInt 1))])] [] = [''--a'', ''1'']
   \<and> spec_flat_args [([], Table [(''a'', Leaf (TInt 1))])] = [''--.a'', ''1'']
   \<and> flatten_to_args [(''a'', Table [([], Table [(''b'', Leaf (TInt 1))])])] []
       = [''--a..b'', ''1'']
   \<and> spec_flat_args [(''a'', Table [([], Table [(''b'', Leaf (TInt 1))])])]
       = [''--a..b'', ''1'']
   \<and> E_set_argv [''evaluate_navier_stokes.py'', ''--a'', ''1'', ''--wandb.log'', ''True'']
       \<in> set (fst (main (example_env\<lparr>read_toml :=
                  \<lambda>p. Inr [([], Table [(''a'', Leaf (TInt 1))])]\<rparr>) example_argv))"
  by (simp add: run_defs spec_flat_args_def str_int_def str_nat.simps digit_def)


section \<open>Distributed loaders\<close>

lemma dict_set_pre:
  "k \<notin> fst ` set pre \<Longrightarrow> dict_set k v (pre @ (k, v0) # post) = pre @ (k, v) # post"
  by (induction pre) auto

lemma distributed_loader_cases:
  "(\<exists>s x. distributed_loader ev ld bs sh = ([E_raised s x], Inl x) \<and> raises ev s = Some x)
   \<or> distributed_loader ev ld bs sh =
       ([], Inr (DataLoader (ld_dataset ld) bs sh
                   (Some (DistributedSampler (ld_dataset ld) (get_local_rank ev)))))"
  by (auto simp: distributed_loader_def attempt_def fail_def ret_def Let_def
      split: option.splits)

lemma distributed_loader_Inr:
  "snd (distributed_loader ev ld bs sh) = Inr r \<Longrightarrow>
   distributed_loader ev ld bs sh = ([], Inr r)
   \<and> r = DataLoader (ld_dataset ld) bs sh
           (Some (DistributedSampler (ld_dataset ld) (get_local_rank ev)))"
  using distributed_loader_cases[of ev ld bs sh] by auto

lemma distributed_loader_total:
  "\<forall>s. raises ev s = None \<Longrightarrow>
   distributed_loader ev ld bs sh =
     ([], Inr (DataLoader (ld_dataset ld) bs sh
                 (Some (DistributedSampler (ld_dataset ld) (get_local_rank ev)))))"
  using distributed_loader_cases[of ev ld bs sh] by auto

text \<open>
  The loop of lines 116-123 replaces, in place and in order, the loaders that
  \<^verbatim>\<open>zip\<close> pairs with a batch size.
\<close>

lemma wrap_test_loaders_Inr:
  "distinct (map fst (pre @ xs)) \<Longrightarrow>
   snd (wrap_test_loaders ev (zip xs bss) (pre @ xs)) = Inr r \<Longrightarrow>
   r = pre @ map (\<lambda>((res, ld), bs).
                (res, DataLoader (ld_dataset ld) bs (Some False)
                        (Some (DistributedSampler (ld_dataset ld) (get_local_rank ev)))))
             (zip xs bss)
         @ drop (length bss) xs"
proof (induction xs arbitrary: pre bss)
  case Nil
  then show ?case by (simp add: ret_def)
next
  case (Cons x xs)
  obtain res ld where x: "x = (res, ld)" by (cases x)
  show ?case
  proof (cases bss)
    case Nil
    then show ?thesis using Cons.prems by (simp add: ret_def)
  next
    case (Cons b bss')
    let ?new = "DataLoader (ld_dataset ld) b (Some False)
                  (Some (DistributedSampler (ld_dataset ld) (get_local_rank ev)))"
    have k: "res \<notin> fst ` set pre" using Cons.prems(1) x by auto
    have d: "distinct (map fst ((pre @ [(res, ?new)]) @ xs))"
      using Cons.prems(1) x by auto
    have s: "snd (bind (distributed_loader ev ld b (Some False))
               (\<lambda>new_loader. wrap_test_loaders ev (zip xs bss')
                   (dict_set res new_loader (pre @ (res, ld) # xs)))) = Inr r"
      using Cons.prems(2) x Cons by simp
    then obtain nl where n: "snd (distributed_loader ev ld b (Some False)) = Inr nl"
      and w: "snd (wrap_test_loaders ev (zip xs bss')
                (dict_set res nl (pre @ (res, ld) # xs))) = Inr r"
      by (auto simp: snd_bind split: sum.splits)
    have nl: "nl = ?new" using distributed_loader_Inr[OF n] by simp
    have "snd (wrap_test_loaders ev (zip xs bss') ((pre @ [(res, ?new)]) @ xs)) = Inr r"
      using w nl k by (simp add: dict_set_pre)
    from Cons.IH[OF d this] show ?thesis using x Cons by simp
  qed
qed

lemma wrap_test_loaders_total:
  "\<forall>s. raises ev s = None \<Longrightarrow> \<exists>r. wrap_test_loaders ev ps tls = ([], Inr r)"
proof (induction ps arbitrary: tls)
  case Nil
  show ?case by (simp add: ret_def)
next
  case (Cons p ps)
  obtain res ld bs where p: "p = ((res, ld), bs)" by (cases p) auto
  show ?case using Cons p by (simp add: distributed_loader_total)
qed

text \<open>
  C3. The data set loader is called with \<^verbatim>\<open>config.data.test_batch_sizes\<close> (line 87)
  and returns a dictionary of test loaders, so with distinct keys, and no more of them
  than batch sizes. When \<^verbatim>\<open>config.distributed.use_distributed\<close> is true and the
  constructors return, the train loader is replaced by a new loader over the same data
  set with \<^verbatim>\<open>config.data.batch_size\<close> and a \<^verbatim>\<open>DistributedSampler\<close>, and every test
  loader, under its key and in iteration order, by a new loader over its data set with
  the batch size paired with it, \<^verbatim>\<open>shuffle=False\<close> and a \<^verbatim>\<open>DistributedSampler\<close>;
  the constructors are the only steps that can raise, and nothing is printed. Otherwise
  the loaders stay as the data set loader returned them.
\<close>

theorem distributed_setup_loaders:
  assumes "distinct (map fst test_loaders)"
    and "length test_loaders \<le> length (data_test_batch_sizes config)"
  shows "(distributed_use_distributed config \<longrightarrow>
            (\<forall>trl' tls'.
               snd (distributed_setup ev config train_loader test_loaders) = Inr (trl', tls')
               \<longrightarrow> trl' = DataLoader (ld_dataset train_loader) (data_batch_size config) None
                            (Some (DistributedSampler (ld_dataset train_loader)
                                     (get_local_rank ev)))
                 \<and> tls' = map (\<lambda>((res, ld), bs).
                            (res, DataLoader (ld_dataset ld) bs (Some False)
                                    (Some (DistributedSampler (ld_dataset ld)
                                             (get_local_rank ev)))))
                          (zip test_loaders (data_test_batch_sizes config))
                 \<and> map fst tls' = map fst test_loaders)
            \<and> ((\<forall>s. raises ev s = None) \<longrightarrow>
                 (\<exists>r. distributed_setup ev config train_loader test_loaders = ([], Inr r)))
            \<and> (\<forall>x. snd (distributed_setup ev config train_loader test_loaders) = Inl x \<longrightarrow>
                 (\<exists>s. fst (distributed_setup ev config train_loader test_loaders)
                        = [E_raised s x])))
       \<and> (\<not> distributed_use_distributed config \<longrightarrow>
            distributed_setup ev config train_loader test_loaders
              = ([], Inr (train_loader, test_loaders)))"
proof (intro conjI impI allI)
  fix trl' tls'
  assume u: "distributed_use_distributed config"
    and r: "snd (distributed_setup ev config train_loader test_loaders) = Inr (trl', tls')"
  obtain a where a: "snd (distributed_loader ev train_loader (data_batch_size config) None)
                       = Inr a"
    and w: "snd (wrap_test_loaders ev (zip test_loaders (data_test_batch_sizes config))
                   test_loaders) = Inr tls'"
    and t: "trl' = a"
    using u r by (auto simp: distributed_setup_def snd_bind ret_def split: sum.splits)
  show "trl' = DataLoader (ld_dataset train_loader) (data_batch_size config) None
                 (Some (DistributedSampler (ld_dataset train_loader) (get_local_rank ev)))"
    using distributed_loader_Inr[OF a] t by simp
  show tls: "tls' = map (\<lambda>((res, ld), bs).
                            (res, DataLoader (ld_dataset ld) bs (Some False)
                                    (Some (DistributedSampler (ld_dataset ld)
                                             (get_local_rank ev)))))
                          (zip test_loaders (data_test_batch_sizes config))"
    using wrap_test_loaders_Inr[of "[]" test_loaders ev "data_test_batch_sizes config" tls']
      assms w by simp
  have "map fst (map (\<lambda>((res, ld), bs).
                            (res, DataLoader (ld_dataset ld) bs (Some False)
                                    (Some (DistributedSampler (ld_dataset ld)
                                             (get_local_rank ev)))))
                  (zip test_loaders (data_test_batch_sizes config)))
        = map fst (map fst (zip test_loaders (data_test_batch_sizes config)))"
    by (simp add: case_prod_unfold comp_def)
  also have "\<dots> = map fst (take (length (data_test_batch_sizes config)) test_loaders)"
    by (simp add: map_fst_zip_take min_def)
  also have "\<dots> = map fst test_loaders" using assms(2) by simp
  finally show "map fst tls' = map fst test_loaders" using tls by simp
next
  assume u: "distributed_use_distributed config" and n: "\<forall>s. raises ev s = None"
  obtain r where "wrap_test_loaders ev (zip test_loaders (data_test_batch_sizes config))
                    test_loaders = ([], Inr r)"
    using wrap_test_loaders_total[OF n] by blast
  then show "\<exists>r. distributed_setup ev config train_loader test_loaders = ([], Inr r)"
    using u n by (simp add: distributed_setup_def distributed_loader_total ret_def)
next
  fix x
  assume "snd (distributed_setup ev config train_loader test_loaders) = Inl x"
  then show "\<exists>s. fst (distributed_setup ev config train_loader test_loaders) = [E_raised s x]"
    using quiet_distributed_setup[of ev config train_loader test_loaders]
    by (simp add: quiet_def)
next
  assume "\<not> distributed_use_distributed config"
  then show "distributed_setup ev config train_loader test_loaders
              = ([], Inr (train_loader, test_loaders))"
    by (simp add: distributed_setup_def ret_def)
qed

theorem distributed_setup_loaders_witness:
  "distributed_setup example_env (example_config\<lparr>distributed_use_distributed := True\<rparr>)
     example_train_loader example_test_loaders =
   ([], Inr (DataLoader (Dataset 0) 8 None (Some (DistributedSampler (Dataset 0) 0)),
      [(128, DataLoader (Dataset 1) 8 (Some False) (Some (DistributedSampler (Dataset 1) 0))),
       (1024, DataLoader (Dataset 2) 4 (Some False) (Some (DistributedSampler (Dataset 2) 0)))]))
   \<and> distributed_setup example_env example_config example_train_loader example_test_loaders
       = ([], Inr (example_train_loader, example_test_loaders))"
proof -
  have d: "distinct (map fst example_test_loaders)"
    by (simp add: example_test_loaders_def)
  have l: "length example_test_loaders
           \<le> length (data_test_batch_sizes
                       (example_config\<lparr>distributed_use_distributed := True\<rparr>))"
    by (simp add: example_test_loaders_def example_config_def)
  have l': "length example_test_loaders \<le> length (data_test_batch_sizes example_config)"
    by (simp add: example_test_loaders_def example_config_def)
  note t = distributed_setup_loaders [OF d l, of example_env example_train_loader]
  have n: "\<forall>s. raises example_env s = None" by (simp add: example_env_def)
  obtain r where r: "distributed_setup example_env
       (example_config\<lparr>distributed_use_distributed := True\<rparr>)
       example_train_loader example_test_loaders = ([], Inr r)"
    using t n by auto
  obtain trl' tls' where p: "r = (trl', tls')" by (cases r)
  have "trl' = DataLoader (Dataset 0) 8 None (Some (DistributedSampler (Dataset 0) 0))
      \<and> tls' = [(128, DataLoader (Dataset 1) 8 (Some False)
                        (Some (DistributedSampler (Dataset 1) 0))),
                (1024, DataLoader (Dataset 2) 4 (Some False)
                        (Some (DistributedSampler (Dataset 2) 0)))]"
    using t r p
    by (simp add: example_env_def example_config_def example_train_loader_def
        example_test_loaders_def)
  moreover have "distributed_setup example_env example_config example_train_loader
       example_test_loaders = ([], Inr (example_train_loader, example_test_loaders))"
    using distributed_setup_loaders [OF d l', of example_env example_train_loader]
    by (simp add: example_config_def)
  ultimately show ?thesis using r p by simp
qed


section \<open>The checkpoint\<close>

text \<open>
  C1, as amended. If \<^verbatim>\<open>trainer.resume_state_from_dir\<close> raises an instance of
  \<^verbatim>\<open>Exception\<close>, the script prints the exception and the hint naming
  \<^verbatim>\<open>best_model_state_dict.pt\<close> and \<^verbatim>\<open>model_state_dict.pt\<close> and exits with
  status 1; an exception that is not an instance of \<^verbatim>\<open>Exception\<close> leaves
  \<^verbatim>\<open>main\<close> as it is, with nothing printed; if loading succeeds, the script prints
  the success message and goes on to the evaluation.
\<close>

theorem checkpoint_load_outcome:
  "(E_resume_state_from_dir t p (Inl e) \<in> set (fst (main ev argv)) \<and> is_Exception e \<longrightarrow>
      snd (main ev argv) = Inl (SystemExit 1) \<and>
      (\<exists>pre. fst (main ev argv) =
         pre @ [E_resume_state_from_dir t p (Inl e),
                Print (''Error loading checkpoint: '' @ exc_str e),
                Print hint_message]))
   \<and> (E_resume_state_from_dir t p (Inl e) \<in> set (fst (main ev argv)) \<and> \<not> is_Exception e \<longrightarrow>
      snd (main ev argv) = Inl e \<and>
      (\<exists>pre. fst (main ev argv) = pre @ [E_resume_state_from_dir t p (Inl e)]))
   \<and> (E_resume_state_from_dir t p (Inr u) \<in> set (fst (main ev argv)) \<longrightarrow>
      (\<exists>pre el tls r post. fst (main ev argv) =
         pre @ [E_resume_state_from_dir t p (Inr u),
                Print ''Checkpoint loaded successfully.'',
                Print ''Starting evaluation...'',
                E_evaluate_all t 0 el tls [] r] @ post))"
proof (intro conjI impI)
  assume a: "E_resume_state_from_dir t p (Inl e) \<in> set (fst (main ev argv)) \<and> is_Exception e"
  then obtain ck c tls el where
    r: "p = Path ck" "resume_state_from_dir ev t p = Inl e"
    and m: "main ev argv = (fst (main_configure ev argv) @ fst (main_build ev c)
                         @ fst (main_finish ev t ck el tls),
                       snd (main_finish ev t ck el tls))"
    using resume_in_main[of t p "Inl e" ev argv] by metis
  have f: "main_finish ev t ck el tls =
      ([Print (''Loading checkpoint from '' @ path_str ev (Path ck) @ ''...''),
               E_resume_state_from_dir t (Path ck) (Inl e),
               Print (''Error loading checkpoint: '' @ exc_str e),
               Print hint_message], Inl (SystemExit 1))"
    using a r by (simp add: main_finish_eq split: sum.splits)
  show "snd (main ev argv) = Inl (SystemExit 1)" using m f by simp
  show "\<exists>pre. fst (main ev argv) =
         pre @ [E_resume_state_from_dir t p (Inl e),
                Print (''Error loading checkpoint: '' @ exc_str e),
                Print hint_message]"
    using m f r
    by (intro exI[where x = "fst (main_configure ev argv) @ fst (main_build ev c)
          @ [Print (''Loading checkpoint from '' @ path_str ev (Path ck) @ ''...'')]"]) simp
next
  assume a: "E_resume_state_from_dir t p (Inl e) \<in> set (fst (main ev argv)) \<and> \<not> is_Exception e"
  then obtain ck c tls el where
    r: "p = Path ck" "resume_state_from_dir ev t p = Inl e"
    and m: "main ev argv = (fst (main_configure ev argv) @ fst (main_build ev c)
                         @ fst (main_finish ev t ck el tls),
                       snd (main_finish ev t ck el tls))"
    using resume_in_main[of t p "Inl e" ev argv] by metis
  have f: "main_finish ev t ck el tls =
      ([Print (''Loading checkpoint from '' @ path_str ev (Path ck) @ ''...''),
               E_resume_state_from_dir t (Path ck) (Inl e)], Inl e)"
    using a r by (simp add: main_finish_eq split: sum.splits)
  show "snd (main ev argv) = Inl e" using m f by simp
  show "\<exists>pre. fst (main ev argv) = pre @ [E_resume_state_from_dir t p (Inl e)]"
    using m f r
    by (intro exI[where x = "fst (main_configure ev argv) @ fst (main_build ev c)
          @ [Print (''Loading checkpoint from '' @ path_str ev (Path ck) @ ''...'')]"]) simp
next
  assume a: "E_resume_state_from_dir t p (Inr u) \<in> set (fst (main ev argv))"
  then obtain ck c tls el where
    r: "p = Path ck" "resume_state_from_dir ev t p = Inr u"
    and m: "main ev argv = (fst (main_configure ev argv) @ fst (main_build ev c)
                         @ fst (main_finish ev t ck el tls),
                       snd (main_finish ev t ck el tls))"
    using resume_in_main[of t p "Inr u" ev argv] by metis
  have "\<exists>post. fst (main_finish ev t ck el tls) =
      [Print (''Loading checkpoint from '' @ path_str ev (Path ck) @ ''...''),
       E_resume_state_from_dir t (Path ck) (Inr u),
       Print ''Checkpoint loaded successfully.'',
       Print ''Starting evaluation...'',
       E_evaluate_all t 0 el tls [] (evaluate_all ev t 0 el tls [])] @ post"
    using r by (simp add: main_finish_eq split: sum.splits)
  then obtain post where f: "fst (main_finish ev t ck el tls) =
      [Print (''Loading checkpoint from '' @ path_str ev (Path ck) @ ''...''),
       E_resume_state_from_dir t (Path ck) (Inr u),
       Print ''Checkpoint loaded successfully.'',
       Print ''Starting evaluation...'',
       E_evaluate_all t 0 el tls [] (evaluate_all ev t 0 el tls [])] @ post" ..
  show "\<exists>pre el tls r post. fst (main ev argv) =
         pre @ [E_resume_state_from_dir t p (Inr u),
                Print ''Checkpoint loaded successfully.'',
                Print ''Starting evaluation...'',
                E_evaluate_all t 0 el tls [] r] @ post"
    using m f r
    by (intro exI[where x = "fst (main_configure ev argv) @ fst (main_build ev c)
          @ [Print (''Loading checkpoint from '' @ path_str ev (Path ck) @ ''...'')]"]
          exI[where x = el] exI[where x = tls] exI[where x = "evaluate_all ev t 0 el tls []"]
          exI[where x = post]) simp
qed


theorem checkpoint_load_outcome_witness:
  "snd (main (example_env\<lparr>resume_state_from_dir := \<lambda>t p. Inl (ExceptionInst ''missing'')\<rparr>)
          example_argv) = Inl (SystemExit 1)
   \<and> (\<exists>pre. fst (main (example_env\<lparr>resume_state_from_dir :=
                      \<lambda>t p. Inl (ExceptionInst ''missing'')\<rparr>) example_argv) =
         pre @ [E_resume_state_from_dir example_trainer (Path ''./ckpt'')
                  (Inl (ExceptionInst ''missing'')),
                Print ''Error loading checkpoint: missing'',
                Print (''Ensure you pointed to a directory containing '' @ [CHR 0x27]
                  @ ''best_model_state_dict.pt'' @ [CHR 0x27] @ '' or '' @ [CHR 0x27]
                  @ ''model_state_dict.pt'' @ [CHR 0x27])])
   \<and> (\<exists>pre el tls r post. fst (main example_env example_argv) =
         pre @ [E_resume_state_from_dir example_trainer (Path ''./ckpt'') (Inr ()),
                Print ''Checkpoint loaded successfully.'',
                Print ''Starting evaluation...'',
                E_evaluate_all example_trainer 0 el tls [] r] @ post)"
proof -
  have m1: "E_resume_state_from_dir example_trainer (Path ''./ckpt'')
              (Inl (ExceptionInst ''missing''))
            \<in> set (fst (main (example_env\<lparr>resume_state_from_dir :=
                      \<lambda>t p. Inl (ExceptionInst ''missing'')\<rparr>) example_argv))"
    by (simp add: run_defs)
  have m2: "E_resume_state_from_dir example_trainer (Path ''./ckpt'') (Inr ())
            \<in> set (fst (main example_env example_argv))"
    by (simp add: run_defs)
  show ?thesis
    using checkpoint_load_outcome [of example_trainer "Path ''./ckpt''"
        "ExceptionInst ''missing''"
        "example_env\<lparr>resume_state_from_dir := \<lambda>t p. Inl (ExceptionInst ''missing'')\<rparr>"
        example_argv "()"]
      checkpoint_load_outcome [of example_trainer "Path ''./ckpt''"
        "ExceptionInst ''missing''" example_env example_argv "()"] m1 m2
    by (simp add: hint_message_def quoted_def)
qed

text \<open>
  C1 as stated fails on \<^verbatim>\<open>KeyboardInterrupt\<close>, which \<^verbatim>\<open>except Exception\<close>
  does not catch.
\<close>

theorem checkpoint_interrupt_counterexample:
  "snd (main (example_env\<lparr>resume_state_from_dir :=
                \<lambda>t p. Inl (BaseExceptionInst ''KeyboardInterrupt'')\<rparr>) example_argv)
     = Inl (BaseExceptionInst ''KeyboardInterrupt'')
   \<and> Print hint_message
       \<notin> set (fst (main (example_env\<lparr>resume_state_from_dir :=
                \<lambda>t p. Inl (BaseExceptionInst ''KeyboardInterrupt'')\<rparr>) example_argv))"
  by (simp add: run_defs hint_message_def quoted_def)


section \<open>The trainer\<close>

text \<open>
  C9. Whatever the configuration says, the \<^verbatim>\<open>Trainer\<close> the script builds, restores
  and evaluates has \<^verbatim>\<open>wandb_log=False\<close>.
\<close>

theorem trainer_wandb_disabled:
  "(E_Trainer t \<in> set (fst (main ev argv)) \<longrightarrow> tr_wandb_log t = False)
   \<and> (E_resume_state_from_dir t p r \<in> set (fst (main ev argv)) \<longrightarrow> tr_wandb_log t = False)
   \<and> (E_evaluate_all t ep el tls ms r' \<in> set (fst (main ev argv)) \<longrightarrow> tr_wandb_log t = False)"
proof (intro conjI impI)
  assume "E_Trainer t \<in> set (fst (main ev argv))"
  then show "tr_wandb_log t = False"
  proof (cases rule: main_event_cases)
    case in_configure
    then show ?thesis using configure_events by fastforce
  next
    case (in_build ck c)
    then show ?thesis using build_trainer_result build_result_trainer by blast
  next
    case (in_finish ck c t' trl tls el)
    then show ?thesis using finish_events by fastforce
  qed
next
  assume "E_resume_state_from_dir t p r \<in> set (fst (main ev argv))"
  then show "tr_wandb_log t = False"
  proof (cases rule: main_event_cases)
    case in_configure
    then show ?thesis using configure_events by fastforce
  next
    case (in_build ck c)
    then show ?thesis using build_events by fastforce
  next
    case (in_finish ck c t' trl tls el)
    then show ?thesis using finish_trainer[OF in_finish(3)] build_result_trainer[OF in_finish(2)] by auto
  qed
next
  assume "E_evaluate_all t ep el tls ms r' \<in> set (fst (main ev argv))"
  then show "tr_wandb_log t = False"
  proof (cases rule: main_event_cases)
    case in_configure
    then show ?thesis using configure_events by fastforce
  next
    case (in_build ck c)
    then show ?thesis using build_events by fastforce
  next
    case (in_finish ck c t' trl tls el)
    then show ?thesis using finish_trainer[OF in_finish(3)] build_result_trainer[OF in_finish(2)] by auto
  qed
qed

theorem trainer_wandb_disabled_witness:
  "wandb_log example_config = True
   \<and> E_Trainer example_trainer \<in> set (fst (main example_env example_argv))
   \<and> tr_wandb_log example_trainer = False"
proof -
  have m: "E_Trainer example_trainer \<in> set (fst (main example_env example_argv))"
    by (simp add: run_defs)
  show ?thesis
    using trainer_wandb_disabled [of example_trainer example_env example_argv] m
    by (simp add: example_config_def)
qed

section \<open>The checkpoint directory\<close>

text \<open>
  C8. When \<^verbatim>\<open>--checkpoint\<close> is not supplied, the checkpoint is restored from
  \<^verbatim>\<open>./ckpt\<close>, and it is restored whenever the \<^verbatim>\<open>Trainer\<close> has been built.
\<close>

theorem checkpoint_default:
  assumes "parse_known_args ev (tl argv) = Inr (co, None, unknown)"
  shows "(E_resume_state_from_dir t p r \<in> set (fst (main ev argv)) \<longrightarrow> p = Path ''./ckpt'')
       \<and> (E_Trainer t \<in> set (fst (main ev argv)) \<longrightarrow>
            E_resume_state_from_dir t (Path ''./ckpt'')
              (resume_state_from_dir ev t (Path ''./ckpt'')) \<in> set (fst (main ev argv)))"
proof (intro conjI impI)
  assume "E_resume_state_from_dir t p r \<in> set (fst (main ev argv))"
  then show "p = Path ''./ckpt''"
  proof (cases rule: main_event_cases)
    case in_configure
    then show ?thesis using configure_events by fastforce
  next
    case (in_build ck c)
    then show ?thesis using build_events by fastforce
  next
    case (in_finish ck c t' trl tls el)
    then show ?thesis using finish_trainer[of _ ev t' ck el tls] configure_checkpoint[OF in_finish(1) assms]
      by simp
  qed
next
  assume a: "E_Trainer t \<in> set (fst (main ev argv))"
  then show "E_resume_state_from_dir t (Path ''./ckpt'')
              (resume_state_from_dir ev t (Path ''./ckpt'')) \<in> set (fst (main ev argv))"
  proof (cases rule: main_event_cases)
    case in_configure
    then show ?thesis using configure_events by fastforce
  next
    case (in_build ck c)
    then obtain trl tls el where b: "snd (main_build ev c) = Inr (t, trl, tls, el)"
      using build_trainer_result by blast
    have ck: "ck = ''./ckpt''" using configure_checkpoint[OF in_build(1) assms] by simp
    have "E_resume_state_from_dir t (Path ck) (resume_state_from_dir ev t (Path ck))
          \<in> set (fst (main_finish ev t ck el tls))"
      by (simp add: main_finish_eq split: sum.splits)
    then show ?thesis using in_build(1) b ck by (simp add: main_def bind_def)
  next
    case (in_finish ck c t' trl tls el)
    then show ?thesis using finish_events by fastforce
  qed
qed


theorem checkpoint_default_witness:
  "parse_known_args example_env (tl example_argv)
     = Inr (Some ''ns.toml'', None, [''--wandb.log'', ''True''])
   \<and> E_resume_state_from_dir example_trainer (Path ''./ckpt'') (Inr ())
       \<in> set (fst (main example_env example_argv))"
proof -
  have m: "E_Trainer example_trainer \<in> set (fst (main example_env example_argv))"
    by (simp add: run_defs)
  have p: "parse_known_args example_env (tl example_argv)
     = Inr (Some ''ns.toml'', None, [''--wandb.log'', ''True''])"
    by (simp add: example_env_def)
  show ?thesis
    using checkpoint_default [OF p, of example_trainer] m p
    by (simp add: example_env_def)
qed


section \<open>Exceptions outside the checkpoint\<close>

text \<open>
  C5. The script has one handler, around the restoration of the checkpoint. When any
  other step raises, that step is the last thing the run does and its exception leaves
  \<^verbatim>\<open>main\<close>: a library call (parsing the command line, reading the TOML file,
  building the configuration, \<^verbatim>\<open>setup\<close>, loading the data, building the model or
  moving it, moving the data processor, the evaluation, the teardown), an import, or a
  constructor (\<^verbatim>\<open>ArgumentParser\<close> and its arguments, \<^verbatim>\<open>expanduser\<close>,
  \<^verbatim>\<open>MGPatchingDataProcessor\<close>, \<^verbatim>\<open>get_local_rank\<close>, \<^verbatim>\<open>DistributedSampler\<close>,
  \<^verbatim>\<open>DataLoader\<close>, \<^verbatim>\<open>AdamW\<close>, \<^verbatim>\<open>StepLR\<close>, the losses, \<^verbatim>\<open>Trainer\<close>).
\<close>

theorem exceptions_propagate:
  assumes "e \<in> set (fst (main ev argv))"
    and "call_raised e = Some x"
    and "\<forall>t p r. e \<noteq> E_resume_state_from_dir t p r"
  shows "snd (main ev argv) = Inl x \<and> last (fst (main ev argv)) = e"
proof (cases rule: main_cases[of ev argv])
  case (configure_fails e')
  then show ?thesis using assms configure_raises[of e ev argv x] by simp
next
  case (build_fails ck c e')
  have "e \<notin> set (fst (main_configure ev argv))"
    using configure_raises[of e ev argv x] assms(2) build_fails(1) by auto
  then have b: "e \<in> set (fst (main_build ev c))" using assms(1) build_fails(3) by simp
  then have "snd (main_build ev c) = Inl x \<and> last (fst (main_build ev c)) = e"
    using build_raises[of e ev c x] assms(2) by simp
  moreover have "fst (main_build ev c) \<noteq> []" using b by auto
  ultimately show ?thesis using build_fails by simp
next
  case (finishes ck c t trl tls el)
  have "e \<notin> set (fst (main_configure ev argv))"
    using configure_raises[of e ev argv x] assms(2) finishes(1) by auto
  moreover have "e \<notin> set (fst (main_build ev c))"
    using build_raises[of e ev c x] assms(2) finishes(2) by auto
  ultimately have f: "e \<in> set (fst (main_finish ev t ck el tls))"
    using assms(1) finishes(3) by simp
  then have "snd (main_finish ev t ck el tls) = Inl x \<and> last (fst (main_finish ev t ck el tls)) = e"
    using finish_raises[of e ev t ck el tls x] assms(2,3) by simp
  moreover have "fst (main_finish ev t ck el tls) \<noteq> []" using f by auto
  ultimately show ?thesis using finishes by simp
qed

theorem exceptions_propagate_witness:
  "snd (main (example_env\<lparr>get_model := \<lambda>c. Inl (ExceptionInst ''unknown architecture'')\<rparr>)
          example_argv) = Inl (ExceptionInst ''unknown architecture'')
   \<and> last (fst (main (example_env\<lparr>get_model := \<lambda>c. Inl (ExceptionInst ''unknown architecture'')\<rparr>)
          example_argv)) = E_get_model example_config (Inl (ExceptionInst ''unknown architecture''))
   \<and> snd (main (example_env\<lparr>
              make_config_from_cli :=
                \<lambda>a. Inr (example_config\<lparr>distributed_use_distributed := True\<rparr>),
              raises := \<lambda>s. if s = S_DistributedSampler (Dataset 0) 0
                             then Some (ExceptionInst ''Requires distributed package'')
                             else None\<rparr>) example_argv)
       = Inl (ExceptionInst ''Requires distributed package'')
   \<and> snd (main example_env []) = Inl (ExceptionInst ''list index out of range'')"
proof -
  have m: "E_get_model example_config (Inl (ExceptionInst ''unknown architecture''))
           \<in> set (fst (main (example_env\<lparr>get_model := \<lambda>c. Inl (ExceptionInst ''unknown architecture'')\<rparr>)
          example_argv))"
    by (simp add: run_defs)
  have s: "E_raised (S_DistributedSampler (Dataset 0) 0)
             (ExceptionInst ''Requires distributed package'')
           \<in> set (fst (main (example_env\<lparr>
              make_config_from_cli :=
                \<lambda>a. Inr (example_config\<lparr>distributed_use_distributed := True\<rparr>),
              raises := \<lambda>s. if s = S_DistributedSampler (Dataset 0) 0
                             then Some (ExceptionInst ''Requires distributed package'')
                             else None\<rparr>) example_argv))"
    by (simp add: run_defs)
  have a: "E_raised S_ArgumentParser (ExceptionInst ''list index out of range'')
           \<in> set (fst (main example_env []))"
    by (simp add: run_defs)
  show ?thesis
    using exceptions_propagate [OF m, of "ExceptionInst ''unknown architecture''"]
      exceptions_propagate [OF s, of "ExceptionInst ''Requires distributed package''"]
      exceptions_propagate [OF a, of "ExceptionInst ''list index out of range''"]
    by simp
qed


section \<open>The teardown\<close>

text \<open>
  C6. \<^verbatim>\<open>destroy_process_group\<close> is called only when a process group is
  initialized, and then as the last step, right after the evaluation, the metrics and
  the test \<^verbatim>\<open>is_initialized\<close>; a run whose evaluation returns ends with it when a
  group is initialized; a run in which the restoration of the checkpoint raised never
  calls it.
\<close>

theorem teardown_last:
  "(E_destroy_process_group r \<in> set (fst (main ev argv)) \<longrightarrow>
      is_initialized ev \<and>
      (\<exists>pre t el tls m. fst (main ev argv) =
         pre @ [E_evaluate_all t 0 el tls [] (Inr m), Print evaluation_header]
             @ map print_metric m
             @ [E_is_initialized True, E_destroy_process_group r]))
   \<and> (E_evaluate_all t ep el tls ms (Inr m) \<in> set (fst (main ev argv)) \<and> is_initialized ev \<longrightarrow>
        last (fst (main ev argv)) = E_destroy_process_group (destroy_process_group ev))
   \<and> (\<not> is_initialized ev \<longrightarrow> E_destroy_process_group r \<notin> set (fst (main ev argv)))
   \<and> (E_resume_state_from_dir t' p (Inl e) \<in> set (fst (main ev argv)) \<longrightarrow>
        E_destroy_process_group r \<notin> set (fst (main ev argv)))"
proof -
  have d: "is_initialized ev \<and>
      (\<exists>pre t el tls m. fst (main ev argv) =
         pre @ [E_evaluate_all t 0 el tls [] (Inr m), Print evaluation_header]
             @ map print_metric m
             @ [E_is_initialized True, E_destroy_process_group r])
      \<and> (\<forall>t' p e. E_resume_state_from_dir t' p (Inl e) \<notin> set (fst (main ev argv)))"
    if a: "E_destroy_process_group r \<in> set (fst (main ev argv))"
    using a
  proof (cases rule: main_event_cases)
    case in_configure
    then show ?thesis using configure_events by fastforce
  next
    case (in_build ck c)
    then show ?thesis using build_events by fastforce
  next
    case (in_finish ck c t trl tls el)
    from in_finish(3) obtain u m where
      u: "resume_state_from_dir ev t (Path ck) = Inr u"
      and m: "evaluate_all ev t 0 el tls [] = Inr m"
      and i: "is_initialized ev"
      and r: "r = destroy_process_group ev"
      by (auto simp: main_finish_eq print_metric_def split: sum.splits if_splits)
    have f: "fst (main_finish ev t ck el tls) =
        [Print (''Loading checkpoint from '' @ path_str ev (Path ck) @ ''...''),
         E_resume_state_from_dir t (Path ck) (Inr u),
         Print ''Checkpoint loaded successfully.'',
         Print ''Starting evaluation...'']
        @ [E_evaluate_all t 0 el tls [] (Inr m), Print evaluation_header]
        @ map print_metric m
        @ [E_is_initialized True, E_destroy_process_group r]"
      using u m i r by (simp add: main_finish_eq)
    have nr: "E_resume_state_from_dir t' p (Inl e) \<notin> set (fst (main ev argv))" for t' p e
    proof
      assume "E_resume_state_from_dir t' p (Inl e) \<in> set (fst (main ev argv))"
      then have "E_resume_state_from_dir t' p (Inl e) \<in> set (fst (main_finish ev t ck el tls))"
        using in_finish(4) configure_events[of "E_resume_state_from_dir t' p (Inl e)" ev argv]
          build_events[of "E_resume_state_from_dir t' p (Inl e)" ev c] by auto
      then show False using f by (auto simp: print_metric_def)
    qed
    have "\<exists>pre. fst (main ev argv) =
         pre @ [E_evaluate_all t 0 el tls [] (Inr m), Print evaluation_header]
             @ map print_metric m
             @ [E_is_initialized True, E_destroy_process_group r]"
      using in_finish(4) f
      by (intro exI[where x = "fst (main_configure ev argv) @ fst (main_build ev c)
        @ [Print (''Loading checkpoint from '' @ path_str ev (Path ck) @ ''...''),
         E_resume_state_from_dir t (Path ck) (Inr u),
         Print ''Checkpoint loaded successfully.'',
         Print ''Starting evaluation...'']"]) simp
    then show ?thesis using i nr by blast
  qed
  have l: "last (fst (main ev argv)) = E_destroy_process_group (destroy_process_group ev)"
    if a: "E_evaluate_all t ep el tls ms (Inr m) \<in> set (fst (main ev argv))" and i: "is_initialized ev"
    using a
  proof (cases rule: main_event_cases)
    case in_configure
    then show ?thesis using configure_events by fastforce
  next
    case (in_build ck c)
    then show ?thesis using build_events by fastforce
  next
    case (in_finish ck c t2 trl tls2 el2)
    from in_finish(3) have "last (fst (main_finish ev t2 ck el2 tls2))
        = E_destroy_process_group (destroy_process_group ev)
        \<and> fst (main_finish ev t2 ck el2 tls2) \<noteq> []"
      using i by (auto simp: main_finish_eq print_metric_def split: sum.splits if_splits)
    then show ?thesis using in_finish(4) by simp
  qed
  show ?thesis using d l by blast
qed


theorem teardown_last_witness:
  "last (fst (main example_env example_argv)) = E_destroy_process_group (Inr ())
   \<and> E_destroy_process_group (Inr ())
       \<notin> set (fst (main (example_env\<lparr>is_initialized := False\<rparr>) example_argv))
   \<and> E_destroy_process_group (Inr ())
       \<notin> set (fst (main (example_env\<lparr>resume_state_from_dir :=
                  \<lambda>t p. Inl (ExceptionInst ''missing'')\<rparr>) example_argv))"
proof -
  have m1: "E_evaluate_all example_trainer 0 [(''h1'', H1Loss 2), (''l2'', LpLoss 2 2)]
              example_test_loaders [] (Inr example_metrics)
            \<in> set (fst (main example_env example_argv))"
    by (simp add: run_defs)
  have m2: "E_resume_state_from_dir example_trainer (Path ''./ckpt'')
              (Inl (ExceptionInst ''missing''))
            \<in> set (fst (main (example_env\<lparr>resume_state_from_dir :=
                  \<lambda>t p. Inl (ExceptionInst ''missing'')\<rparr>) example_argv))"
    by (simp add: run_defs)
  show ?thesis
    using teardown_last [where ev = example_env and argv = example_argv
        and t = example_trainer and ep = 0 and el = "[(''h1'', H1Loss 2), (''l2'', LpLoss 2 2)]"
        and tls = example_test_loaders and ms = "[]" and m = example_metrics
        and r = "Inr ()"]
      teardown_last [where ev = "example_env\<lparr>is_initialized := False\<rparr>"
        and argv = example_argv and r = "Inr ()"]
      teardown_last [where ev = "example_env\<lparr>resume_state_from_dir :=
                  \<lambda>t p. Inl (ExceptionInst ''missing'')\<rparr>"
        and argv = example_argv and r = "Inr ()" and t' = example_trainer
        and p = "Path ''./ckpt''" and e = "ExceptionInst ''missing''"]
      m1 m2
    by (simp add: example_env_def)
qed


section \<open>Verbosity\<close>

text \<open>
  C10. With \<open>c\<close> the configuration handed to \<^verbatim>\<open>setup\<close> and \<open>lg\<close> the
  \<^verbatim>\<open>is_logger\<close> it returns, the configuration is printed exactly when
  \<^verbatim>\<open>c.verbose\<close> and \<open>lg\<close> both hold, the \<^verbatim>\<open>Trainer\<close> gets that
  conjunction as \<^verbatim>\<open>verbose\<close>, and a process that is not the logger never prints
  the configuration.
\<close>

theorem effective_verbosity:
  assumes "E_setup c (Inr (dev, lg)) \<in> set (fst (main ev argv))"
  shows "((\<exists>c'. PrintConfig c' \<in> set (fst (main ev argv))) \<longleftrightarrow> verbose c \<and> lg)
       \<and> (\<forall>t. E_Trainer t \<in> set (fst (main ev argv)) \<longrightarrow> tr_verbose t = (verbose c \<and> lg))
       \<and> (\<not> lg \<longrightarrow> (\<forall>c'. PrintConfig c' \<notin> set (fst (main ev argv))))"
  using assms
proof (cases rule: main_event_cases)
  case in_configure
  then show ?thesis using configure_events by fastforce
next
  case (in_build ck c0)
  have b: "((\<exists>c'. PrintConfig c' \<in> set (fst (main_build ev c0))) \<longleftrightarrow> verbose c \<and> lg)
     \<and> (\<forall>t. E_Trainer t \<in> set (fst (main_build ev c0)) \<longrightarrow> tr_verbose t = (verbose c \<and> lg))"
    using build_verbose_aux[OF surjective_pairing in_build(2)] .
  have p: "PrintConfig c' \<in> set (fst (main ev argv)) \<longleftrightarrow> PrintConfig c' \<in> set (fst (main_build ev c0))" for c'
    using build_only_in_main[OF in_build(1), of "PrintConfig c'"] by simp
  have t: "E_Trainer t \<in> set (fst (main ev argv)) \<longleftrightarrow> E_Trainer t \<in> set (fst (main_build ev c0))" for t
    using build_only_in_main[OF in_build(1), of "E_Trainer t"] by simp
  show ?thesis using b unfolding p t by blast
next
  case (in_finish ck c0 t trl tls el)
  then show ?thesis using finish_events by fastforce
qed

theorem effective_verbosity_witness:
  "verbose example_config = True
   \<and> (\<forall>c'. PrintConfig c'
        \<notin> set (fst (main (example_env\<lparr>setup_py := \<lambda>c. Inr (Device ''cuda:1'', False)\<rparr>) example_argv)))
   \<and> PrintConfig example_config \<in> set (fst (main example_env example_argv))"
proof -
  have m1: "E_setup example_config (Inr (Device ''cuda:1'', False))
     \<in> set (fst (main (example_env\<lparr>setup_py := \<lambda>c. Inr (Device ''cuda:1'', False)\<rparr>) example_argv))"
    by (simp add: run_defs)
  have m2: "PrintConfig example_config \<in> set (fst (main example_env example_argv))"
    by (simp add: run_defs)
  show ?thesis using effective_verbosity [OF m1] m2 by (simp add: example_config_def)
qed


section \<open>The data processor\<close>

text \<open>
  C4. With \<open>c\<close> the configuration, \<open>dp\<close> the data processor the data set loader
  returned and \<open>m\<close> the model on the device, the processor moved to the device is an
  \<^verbatim>\<open>MGPatchingDataProcessor\<close> built from \<open>m\<close>, the normalizers of \<open>dp\<close> and
  the patching configuration when \<^verbatim>\<open>config.patching.levels > 0\<close>, and \<open>dp\<close>
  itself otherwise, unless the constructor of the \<^verbatim>\<open>MGPatchingDataProcessor\<close>
  raised; what the move returns is the data processor of the \<^verbatim>\<open>Trainer\<close>, built
  right after it.
\<close>

theorem data_processor_setup:
  assumes "E_setup c sr \<in> set (fst (main ev argv))"
    and "E_load_navier_stokes_pt la (Inr (trl, tls, dp)) \<in> set (fst (main ev argv))"
    and "E_model_to m0 dev (Inr m) \<in> set (fst (main ev argv))"
    and "dp1 = (if patching_levels c > 0
                then MGPatchingDataProcessor m (in_normalizer dp) (out_normalizer dp)
                       (patching_padding c) (patching_stitching c) (patching_levels c)
                       (distributed_use_distributed c)
                else dp)"
  shows "(E_processor_to dp1 dev (processor_to ev dp1 dev) \<in> set (fst (main ev argv))
          \<or> (patching_levels c > 0
              \<and> (\<exists>x. E_raised (S_MGPatchingDataProcessor dp1) x \<in> set (fst (main ev argv)))))
       \<and> (\<forall>t. E_Trainer t \<in> set (fst (main ev argv)) \<longrightarrow>
            (\<exists>pre post. fst (main ev argv) =
               pre @ [E_processor_to dp1 dev (Inr (tr_data_processor t)), E_Trainer t] @ post))"
  using assms(1)
proof (cases rule: main_event_cases)
  case in_configure
  then show ?thesis using configure_events by fastforce
next
  case (in_build ck c0)
  have d: "dp1 = patched_processor c m dp" using assms(4) by (simp add: patched_processor_def)
  have l: "E_load_navier_stokes_pt la (Inr (trl, tls, dp)) \<in> set (fst (main_build ev c0))"
    using build_only_in_main[OF in_build(1), of "E_load_navier_stokes_pt la (Inr (trl, tls, dp))"]
      assms(2) by simp
  have mt: "E_model_to m0 dev (Inr m) \<in> set (fst (main_build ev c0))"
    using build_only_in_main[OF in_build(1), of "E_model_to m0 dev (Inr m)"] assms(3) by simp
  have b: "(E_processor_to dp1 dev (processor_to ev dp1 dev) \<in> set (fst (main_build ev c0))
       \<or> (patching_levels c > 0
           \<and> (\<exists>x. E_raised (S_MGPatchingDataProcessor dp1) x \<in> set (fst (main_build ev c0)))))
     \<and> (\<forall>t. E_Trainer t \<in> set (fst (main_build ev c0)) \<longrightarrow>
        processor_to ev dp1 dev = Inr (tr_data_processor t)
        \<and> (\<exists>pre. fst (main_build ev c0) =
              pre @ [E_processor_to dp1 dev (Inr (tr_data_processor t)), E_Trainer t]))"
    using build_processor_aux[OF surjective_pairing in_build(2) l mt] d by simp
  obtain post where p: "fst (main ev argv) = fst (main_configure ev argv) @ fst (main_build ev c0) @ post"
    using main_trace_build[OF in_build(1)] by blast
  have "\<exists>pre post. fst (main ev argv) =
               pre @ [E_processor_to dp1 dev (Inr (tr_data_processor t)), E_Trainer t] @ post"
    if a: "E_Trainer t \<in> set (fst (main ev argv))" for t
  proof -
    have "E_Trainer t \<in> set (fst (main_build ev c0))"
      using build_only_in_main[OF in_build(1), of "E_Trainer t"] a by simp
    then obtain pre where "fst (main_build ev c0) =
              pre @ [E_processor_to dp1 dev (Inr (tr_data_processor t)), E_Trainer t]"
      using b by blast
    then have "fst (main ev argv) = (fst (main_configure ev argv) @ pre)
         @ [E_processor_to dp1 dev (Inr (tr_data_processor t)), E_Trainer t] @ post"
      using p by simp
    then show ?thesis by blast
  qed
  moreover have "E_processor_to dp1 dev (processor_to ev dp1 dev) \<in> set (fst (main ev argv))
          \<or> (patching_levels c > 0
              \<and> (\<exists>x. E_raised (S_MGPatchingDataProcessor dp1) x \<in> set (fst (main ev argv))))"
    using b p by auto
  ultimately show ?thesis by blast
next
  case (in_finish ck c0 t trl tls el)
  then show ?thesis using finish_events by fastforce
qed


theorem data_processor_setup_witness:
  "E_processor_to
     (MGPatchingDataProcessor (Model 0) (Normalizer 0) (Normalizer 1) (PyFloat 0 0) True 2 False)
     (Device ''cuda:0'')
     (Inr (MGPatchingDataProcessor (Model 0) (Normalizer 0) (Normalizer 1) (PyFloat 0 0) True 2
            False))
   \<in> set (fst (main (example_env\<lparr>make_config_from_cli :=
                \<lambda>a. Inr (example_config\<lparr>patching_levels := 2\<rparr>)\<rparr>) example_argv))
   \<and> E_processor_to example_processor (Device ''cuda:0'') (Inr example_processor)
       \<in> set (fst (main example_env example_argv))"
proof -
  have m1: "E_setup (example_config\<lparr>patching_levels := 2\<rparr>) (Inr (Device ''cuda:0'', True))
     \<in> set (fst (main (example_env\<lparr>make_config_from_cli :=
                \<lambda>a. Inr (example_config\<lparr>patching_levels := 2\<rparr>)\<rparr>) example_argv))"
    by (simp add: run_defs)
  have m2: "E_load_navier_stokes_pt
       (make_load_args (Path ''~/data/navier_stokes'') (example_config\<lparr>patching_levels := 2\<rparr>))
       (Inr (example_train_loader, example_test_loaders, example_processor))
     \<in> set (fst (main (example_env\<lparr>make_config_from_cli :=
                \<lambda>a. Inr (example_config\<lparr>patching_levels := 2\<rparr>)\<rparr>) example_argv))"
    by (simp add: run_defs)
  have m3: "E_model_to (Model 0) (Device ''cuda:0'') (Inr (Model 0))
     \<in> set (fst (main (example_env\<lparr>make_config_from_cli :=
                \<lambda>a. Inr (example_config\<lparr>patching_levels := 2\<rparr>)\<rparr>) example_argv))"
    by (simp add: run_defs)
  have n1: "E_setup example_config (Inr (Device ''cuda:0'', True))
     \<in> set (fst (main example_env example_argv))"
    by (simp add: run_defs)
  have n2: "E_load_navier_stokes_pt (make_load_args (Path ''~/data/navier_stokes'') example_config)
       (Inr (example_train_loader, example_test_loaders, example_processor))
     \<in> set (fst (main example_env example_argv))"
    by (simp add: run_defs)
  have n3: "E_model_to (Model 0) (Device ''cuda:0'') (Inr (Model 0))
     \<in> set (fst (main example_env example_argv))"
    by (simp add: run_defs)
  have nr: "\<forall>s x. E_raised s x
     \<notin> set (fst (main (example_env\<lparr>make_config_from_cli :=
                \<lambda>a. Inr (example_config\<lparr>patching_levels := 2\<rparr>)\<rparr>) example_argv))"
    by (simp add: run_defs)
  have a: "E_processor_to
     (MGPatchingDataProcessor (Model 0) (Normalizer 0) (Normalizer 1) (PyFloat 0 0) True 2 False)
     (Device ''cuda:0'')
     (Inr (MGPatchingDataProcessor (Model 0) (Normalizer 0) (Normalizer 1) (PyFloat 0 0) True 2
            False))
   \<in> set (fst (main (example_env\<lparr>make_config_from_cli :=
                \<lambda>a. Inr (example_config\<lparr>patching_levels := 2\<rparr>)\<rparr>) example_argv))"
    using data_processor_setup [OF m1 m2 m3 refl, THEN conjunct1] nr
    by (simp add: example_env_def example_config_def example_processor_def)
  have b: "E_processor_to example_processor (Device ''cuda:0'') (Inr example_processor)
       \<in> set (fst (main example_env example_argv))"
    using data_processor_setup [OF n1 n2 n3 refl, THEN conjunct1]
    by (simp add: example_env_def example_config_def example_processor_def)
  show ?thesis using a b by (rule conjI)
qed

section \<open>The evaluation\<close>

lemma not_evaluate:
  "configure_event e \<Longrightarrow> \<not> is_evaluate_all e"
  "build_event e \<Longrightarrow> \<not> is_evaluate_all e"
  by (cases e; simp)+

lemma filter_evaluate_configure [simp]:
  "filter is_evaluate_all (fst (main_configure ev argv)) = []"
  using configure_events not_evaluate(1) by (fastforce simp: filter_empty_conv)

lemma filter_evaluate_build [simp]:
  "filter is_evaluate_all (fst (main_build ev c0)) = []"
  using build_events not_evaluate(2) by (fastforce simp: filter_empty_conv)

lemma filter_evaluate_metrics [simp]: "filter is_evaluate_all (map print_metric m) = []"
  by (induction m) (simp_all add: print_metric_def)

lemma print_metric_not_Print [simp]: "print_metric kv = Print (fst kv @ '': '' @ snd kv)"
  by (simp add: print_metric_def)

text \<open>
  C7. After a checkpoint load that succeeds, \<^verbatim>\<open>trainer.evaluate_all\<close> is called
  exactly once, with \<^verbatim>\<open>epoch=0\<close>, the losses \<^verbatim>\<open>h1\<close> (\<^verbatim>\<open>H1Loss(d=2)\<close>) and
  \<^verbatim>\<open>l2\<close> (\<^verbatim>\<open>LpLoss(d=2, p=2)\<close>) and no others, the test loaders as the
  distributed setup left them, and empty \<^verbatim>\<open>eval_modes\<close>; when it returns, the
  header and then one line \<^verbatim>\<open>key: value\<close> for every entry of the metrics are
  printed, in order, and nothing is printed after them. Without a successful load it is
  never called.
\<close>

theorem evaluation_once:
  "(E_resume_state_from_dir t p (Inr u) \<in> set (fst (main ev argv)) \<longrightarrow>
     (\<exists>tls. filter is_evaluate_all (fst (main ev argv)) =
               [E_evaluate_all t 0 [(''h1'', H1Loss 2), (''l2'', LpLoss 2 2)] tls []
                  (evaluate_all ev t 0 [(''h1'', H1Loss 2), (''l2'', LpLoss 2 2)] tls [])]
        \<and> (\<forall>c sr la trl tls0 dp.
              E_setup c sr \<in> set (fst (main ev argv))
              \<and> E_load_navier_stokes_pt la (Inr (trl, tls0, dp)) \<in> set (fst (main ev argv))
              \<longrightarrow> (\<exists>trl'. snd (distributed_setup ev c trl tls0) = Inr (trl', tls)))
        \<and> (\<forall>m. evaluate_all ev t 0 [(''h1'', H1Loss 2), (''l2'', LpLoss 2 2)] tls [] = Inr m \<longrightarrow>
              (\<exists>pre post. fst (main ev argv) =
                 pre @ [E_evaluate_all t 0 [(''h1'', H1Loss 2), (''l2'', LpLoss 2 2)] tls [] (Inr m),
                        Print evaluation_header]
                     @ map (\<lambda>(k, v). Print (k @ '': '' @ v)) m @ post
                 \<and> (\<forall>s. Print s \<notin> set post)))))
   \<and> ((\<forall>t p u. E_resume_state_from_dir t p (Inr u) \<notin> set (fst (main ev argv))) \<longrightarrow>
        filter is_evaluate_all (fst (main ev argv)) = [])"
proof (intro conjI impI)
  assume "E_resume_state_from_dir t p (Inr u) \<in> set (fst (main ev argv))"
  then obtain ck c trl' tls el where
    cf: "snd (main_configure ev argv) = Inr (ck, c)"
    and b: "snd (main_build ev c) = Inr (t, trl', tls, el)"
    and r: "p = Path ck" "resume_state_from_dir ev t p = Inr u"
    and m: "main ev argv = (fst (main_configure ev argv) @ fst (main_build ev c)
                         @ fst (main_finish ev t ck el tls),
                       snd (main_finish ev t ck el tls))"
    using resume_in_main[of t p "Inr u" ev argv] by metis
  have el: "el = [(''h1'', H1Loss 2), (''l2'', LpLoss 2 2)]"
    using build_result_trainer[OF b] by simp
  have f1: "filter is_evaluate_all (fst (main ev argv)) =
               [E_evaluate_all t 0 el tls [] (evaluate_all ev t 0 el tls [])]"
    using m r by (simp add: main_finish_eq split: sum.splits)
  have f2: "\<exists>trl'. snd (distributed_setup ev c' trl tls0) = Inr (trl', tls)"
    if a: "E_setup c' sr \<in> set (fst (main ev argv))
           \<and> E_load_navier_stokes_pt la (Inr (trl, tls0, dp)) \<in> set (fst (main ev argv))"
    for c' sr la trl tls0 dp
  proof -
    have "E_setup c' sr \<in> set (fst (main_build ev c))"
      using build_only_in_main[OF cf, of "E_setup c' sr"] a by simp
    moreover have "E_load_navier_stokes_pt la (Inr (trl, tls0, dp)) \<in> set (fst (main_build ev c))"
      using build_only_in_main[OF cf, of "E_load_navier_stokes_pt la (Inr (trl, tls0, dp))"] a
      by simp
    moreover have "main_build ev c = (fst (main_build ev c), Inr (t, trl', tls, el))"
      using b by (metis prod.collapse)
    ultimately show ?thesis using build_loaders_aux by blast
  qed
  have f3: "\<exists>pre post. fst (main ev argv) =
                 pre @ [E_evaluate_all t 0 el tls [] (Inr m), Print evaluation_header]
                     @ map (\<lambda>(k, v). Print (k @ '': '' @ v)) m @ post
                 \<and> (\<forall>s. Print s \<notin> set post)"
    if a: "evaluate_all ev t 0 el tls [] = Inr m" for m
  proof -
    have pm: "map print_metric m = map (\<lambda>(k, v). Print (k @ '': '' @ v)) m"
      by (simp add: case_prod_unfold)
    have "fst (main ev argv) =
        (fst (main_configure ev argv) @ fst (main_build ev c)
          @ [Print (''Loading checkpoint from '' @ path_str ev (Path ck) @ ''...''),
             E_resume_state_from_dir t (Path ck) (Inr u),
             Print ''Checkpoint loaded successfully.'',
             Print ''Starting evaluation...''])
        @ [E_evaluate_all t 0 el tls [] (Inr m), Print evaluation_header]
        @ map (\<lambda>(k, v). Print (k @ '': '' @ v)) m
        @ (if is_initialized ev
           then [E_is_initialized True, E_destroy_process_group (destroy_process_group ev)]
           else [E_is_initialized False])"
      using m r a pm by (simp add: main_finish_eq)
    moreover have "\<forall>s. Print s \<notin> set (if is_initialized ev
           then [E_is_initialized True, E_destroy_process_group (destroy_process_group ev)]
           else [E_is_initialized False])"
      by simp
    ultimately show ?thesis by blast
  qed
  show "\<exists>tls. filter is_evaluate_all (fst (main ev argv)) =
               [E_evaluate_all t 0 [(''h1'', H1Loss 2), (''l2'', LpLoss 2 2)] tls []
                  (evaluate_all ev t 0 [(''h1'', H1Loss 2), (''l2'', LpLoss 2 2)] tls [])]
        \<and> (\<forall>c sr la trl tls0 dp.
              E_setup c sr \<in> set (fst (main ev argv))
              \<and> E_load_navier_stokes_pt la (Inr (trl, tls0, dp)) \<in> set (fst (main ev argv))
              \<longrightarrow> (\<exists>trl'. snd (distributed_setup ev c trl tls0) = Inr (trl', tls)))
        \<and> (\<forall>m. evaluate_all ev t 0 [(''h1'', H1Loss 2), (''l2'', LpLoss 2 2)] tls [] = Inr m \<longrightarrow>
              (\<exists>pre post. fst (main ev argv) =
                 pre @ [E_evaluate_all t 0 [(''h1'', H1Loss 2), (''l2'', LpLoss 2 2)] tls [] (Inr m),
                        Print evaluation_header]
                     @ map (\<lambda>(k, v). Print (k @ '': '' @ v)) m @ post
                 \<and> (\<forall>s. Print s \<notin> set post)))"
    using f1 f2 f3 unfolding el by (intro exI[where x = tls]) blast
next
  assume n: "\<forall>t p u. E_resume_state_from_dir t p (Inr u) \<notin> set (fst (main ev argv))"
  show "filter is_evaluate_all (fst (main ev argv)) = []"
  proof (cases rule: main_cases[of ev argv])
    case (configure_fails e)
    then show ?thesis by simp
  next
    case (build_fails ck c e)
    then show ?thesis by simp
  next
    case (finishes ck c t trl tls el)
    have "E_resume_state_from_dir t (Path ck) (resume_state_from_dir ev t (Path ck))
          \<in> set (fst (main_finish ev t ck el tls))"
      by (simp add: main_finish_eq split: sum.splits)
    then have "\<forall>u. resume_state_from_dir ev t (Path ck) \<noteq> Inr u"
      using n finishes(3) by auto
    then show ?thesis using finishes(3) by (auto simp: main_finish_eq split: sum.splits)
  qed
qed


theorem evaluation_once_witness:
  "\<exists>tls. filter is_evaluate_all (fst (main example_env example_argv)) =
     [E_evaluate_all example_trainer 0 [(''h1'', H1Loss 2), (''l2'', LpLoss 2 2)] tls []
        (Inr example_metrics)]"
proof -
  have m: "E_resume_state_from_dir example_trainer (Path ''./ckpt'') (Inr ())
            \<in> set (fst (main example_env example_argv))"
    by (simp add: run_defs)
  obtain tls where "filter is_evaluate_all (fst (main example_env example_argv)) =
               [E_evaluate_all example_trainer 0 [(''h1'', H1Loss 2), (''l2'', LpLoss 2 2)] tls []
                  (evaluate_all example_env example_trainer 0
                     [(''h1'', H1Loss 2), (''l2'', LpLoss 2 2)] tls [])]"
    using evaluation_once [of example_trainer "Path ''./ckpt''" "()" example_env example_argv,
        THEN conjunct1, rule_format, OF m] by blast
  then have "filter is_evaluate_all (fst (main example_env example_argv)) =
               [E_evaluate_all example_trainer 0 [(''h1'', H1Loss 2), (''l2'', LpLoss 2 2)] tls []
                  (Inr example_metrics)]"
    by (simp add: example_env_def)
  then show ?thesis by (rule exI)
qed

end
